theory Spec2Isabelle
  imports Complex_Main "HOL-Library.AList"
begin

section \<open>Values, errors and the model container\<close>

text \<open>
  The development follows \<^verbatim>\<open>calliope/backend/pyomo/model.py\<close>: the functions that
  declare sets, parameters, variables, expressions and constraints on a Pyomo model, the
  solve call, the loading of the solver's results and the extraction of the result arrays.

  Python values are a datatype; a float is a finite number, one of the two infinities, or
  NaN. A dictionary is an association list with distinct keys, in insertion order, written
  with \<^const>\<open>AList.update\<close> and read with \<^const>\<open>map_of\<close>.
\<close>

type_synonym name = string
type_synonym label = string
type_synonym idx = "label list"

datatype pyfloat = Fin real | PosInf | NegInf | NaN

datatype pyval =
    PNone
  | PBool bool
  | PInt int
  | PFloat pyfloat
  | PStr string
  | PDict "(string \<times> pyval) list"

text \<open>
  The exceptions a statement of the file can raise. \<open>ConfigurationError\<close> is the category
  the specification names for configuration faults.
\<close>

datatype error =
    AttributeError string
  | KeyError string
  | TypeError string
  | OSError string
  | SolverError string
  | ConfigurationError string

text \<open>
  An attribute of the Pyomo model. The model is a \<open>ConcreteModel\<close>, so a component is
  constructed when it is attached: an expression or constraint holds, for every tuple of
  its index, what its rule returned there. \<open>'e\<close> is the type of numeric expressions the
  expression rules build, \<open>'c\<close> the type of relational expressions of the constraint rules.
\<close>

datatype 'e exprval = Const pyfloat | Built 'e

datatype ('e, 'c) component =
    Builtin
  | Attr pyval
  | SetC "label list"
  | ParamC "name list" "(idx \<times> pyval) list" "pyval option" bool string
  | VarC "idx list" string "pyval option" "(idx \<times> pyval) list"
  | ExpressionC "idx list" "(idx \<times> 'e exprval) list"
  | ConstraintC "idx list" "(idx \<times> 'c) list"
  | ObjectiveC string

type_synonym ('e, 'c) model = "(name \<times> ('e, 'c) component) list"

definition getattr :: "('e, 'c) model \<Rightarrow> name \<Rightarrow> ('e, 'c) component option" where
  "getattr m k = map_of m k"

definition hasattr :: "('e, 'c) model \<Rightarrow> name \<Rightarrow> bool" where
  "hasattr m k = (getattr m k \<noteq> None)"

definition setattr :: "('e, 'c) model \<Rightarrow> name \<Rightarrow> ('e, 'c) component \<Rightarrow> ('e, 'c) model" where
  "setattr m k c = AList.update k c m"

section \<open>The input dataset\<close>

text \<open>
  A data variable is an array over some of the dataset's dimensions: \<open>dv_series\<close> is
  \<open>v.to_series()\<close>, one entry per cell of the array, a missing cell holding NaN. The
  dataset's attributes \<open>defaults\<close>, \<open>run_config\<close> and \<open>imasks\<close> are YAML strings in the
  source; here they are the dictionaries \<open>AttrDict.from_yaml_string\<close> parses them to.
\<close>

record data_var =
  dv_dims :: "name list"
  dv_coords :: "label list list"
  dv_series :: "(idx \<times> pyval) list"
  dv_attrs :: "(string \<times> pyval) list"

record family_config =
  foreach :: "name list"
  cfg_domain :: string
  cfg_bounds :: "pyval option"

record imask_config =
  ic_variables :: "(name \<times> family_config) list"
  ic_expressions :: "(name \<times> family_config) list"
  ic_constraints :: "(name \<times> family_config) list"

record dataset =
  coords :: "(name \<times> label list) list"
  dims :: "name list"
  data_vars :: "(name \<times> data_var) list"
  attrs_defaults :: "(string \<times> pyval) list"
  attrs_run_config :: "(string \<times> pyval) list"
  attrs_imasks :: imask_config

section \<open>Sets and parameters\<close>

definition build_sets :: "dataset \<Rightarrow> ('e, 'c) model \<Rightarrow> ('e, 'c) model" where
  "build_sets model_data backend_model =
     fold (\<lambda>(coord_name, coord_vals) m. setattr m coord_name (SetC coord_vals))
       (coords model_data) backend_model"

text \<open>
  \<open>pd.isnull\<close>: None and NaN are null; under the pandas option \<open>mode.use_inf_as_na\<close>
  (the flag) the two infinities are null as well.
\<close>

fun isnull :: "bool \<Rightarrow> pyval \<Rightarrow> bool" where
  "isnull use_inf_as_na PNone = True"
| "isnull use_inf_as_na (PFloat NaN) = True"
| "isnull use_inf_as_na (PFloat PosInf) = use_inf_as_na"
| "isnull use_inf_as_na (PFloat NegInf) = use_inf_as_na"
| "isnull use_inf_as_na v = False"

definition dropna :: "bool \<Rightarrow> ('k \<times> pyval) list \<Rightarrow> ('k \<times> pyval) list" where
  "dropna use_inf_as_na s = filter (\<lambda>(t, x). \<not> isnull use_inf_as_na x) s"

definition to_dict :: "('k \<times> 'v) list \<Rightarrow> ('k \<times> 'v) list" where
  "to_dict s = fold (\<lambda>(k, v). AList.update k v) s []"

text \<open>An infinite value replaced by the missing value, any other value kept.\<close>

fun inf_as_missing :: "pyval \<Rightarrow> pyval" where
  "inf_as_missing (PFloat PosInf) = PFloat NaN"
| "inf_as_missing (PFloat NegInf) = PFloat NaN"
| "inf_as_missing v = v"

text \<open>Python's \<open>x == n\<close> for an integer literal \<open>n\<close>.\<close>

fun eq_int :: "pyval \<Rightarrow> int \<Rightarrow> bool" where
  "eq_int (PInt i) n = (i = n)"
| "eq_int (PBool b) n = ((if b then 1 else 0) = n)"
| "eq_int (PFloat (Fin r)) n = (r = of_int n)"
| "eq_int v n = False"

text \<open>
  The condition of the first loop of \<open>build_params\<close>:
  \<open>v.attrs["is_result"] == 0 or (v.attrs.get("operate_param", 0) == 1 and
  run_config["mode"] == "operate")\<close>, with Python's short-circuit evaluation.
\<close>

definition is_param :: "(string \<times> pyval) list \<Rightarrow> data_var \<Rightarrow> error + bool" where
  "is_param run_config v =
     (case map_of (dv_attrs v) ''is_result'' of
        None \<Rightarrow> Inl (KeyError ''is_result'')
      | Some r \<Rightarrow>
          if eq_int r 0 then Inr True
          else if eq_int (case map_of (dv_attrs v) ''operate_param'' of
                            None \<Rightarrow> PInt 0 | Some x \<Rightarrow> x) 1
          then (case map_of run_config ''mode'' of
                  None \<Rightarrow> Inl (KeyError ''mode'')
                | Some md \<Rightarrow> Inr (md = PStr ''operate''))
          else Inr False)"

text \<open>
  \<open>[getattr(backend_model, i) for i in v.dims]\<close>: the first dimension that is no attribute
  of the model raises; a parameter keeps the names of its index sets.
\<close>

definition getattrs :: "('e, 'c) model \<Rightarrow> name list \<Rightarrow> error + name list" where
  "getattrs m ds =
     (case filter (\<lambda>i. \<not> hasattr m i) ds of
        [] \<Rightarrow> Inr ds
      | i # _ \<Rightarrow> Inl (AttributeError i))"

text \<open>
  The body of the first loop of \<open>build_params\<close>, for the data variable \<open>v\<close> named \<open>k\<close>.
  \<open>get_domain\<close> is imported from \<open>calliope.backend.pyomo.util\<close> and is a parameter here.
  The run configuration and the defaults are read from the model's attributes
  \<open>__calliope_run_config\<close> and \<open>__calliope_defaults\<close> in the source; they are passed as
  values here.
\<close>

definition build_param ::
  "(data_var \<Rightarrow> string) \<Rightarrow> (string \<times> pyval) list \<Rightarrow> (string \<times> pyval) list
     \<Rightarrow> ('e, 'c) model \<Rightarrow> name \<Rightarrow> data_var \<Rightarrow> error + ('e, 'c) model" where
  "build_param get_domain defaults run_config backend_model k v =
     (case is_param run_config v of
        Inl e \<Rightarrow> Inl e
      | Inr False \<Rightarrow> Inr backend_model
      | Inr True \<Rightarrow>
          (let initialize = to_dict (dropna True (dv_series v));
               domain = get_domain v;
               default_value = (case map_of defaults k of
                            None \<Rightarrow> None
                          | Some d \<Rightarrow> if isnull False d then None else Some d)
           in case getattrs backend_model (dv_dims v) of
                Inl e \<Rightarrow> Inl e
              | Inr ds \<Rightarrow>
                  (let k' = (if hasattr backend_model k then ''calliope_'' @ k else k)
                   in Inr (setattr backend_model k' (ParamC ds initialize default_value True domain)))))"

fun build_param_loop ::
  "(data_var \<Rightarrow> string) \<Rightarrow> (string \<times> pyval) list \<Rightarrow> (string \<times> pyval) list
     \<Rightarrow> ('e, 'c) model \<Rightarrow> (name \<times> data_var) list \<Rightarrow> error + ('e, 'c) model" where
  "build_param_loop get_domain defaults run_config backend_model [] = Inr backend_model"
| "build_param_loop get_domain defaults run_config backend_model ((k, v) # rest) =
     (case build_param get_domain defaults run_config backend_model k v of
        Inl e \<Rightarrow> Inl e
      | Inr m \<Rightarrow> build_param_loop get_domain defaults run_config m rest)"

text \<open>
  The body of the second loop, over the items of \<open>run_config["objective_options"]\<close>. The
  weights of \<open>cost_class\<close> are filtered to the members of the set \<open>backend_model.costs\<close> and
  become the parameter \<open>objective_cost_class\<close>, indexed by that set (its keys are the
  one-element tuples); any other option becomes a plain attribute.
\<close>

definition build_objective_option ::
  "('e, 'c) model \<Rightarrow> string \<Rightarrow> pyval \<Rightarrow> error + ('e, 'c) model" where
  "build_objective_option backend_model option_name option_val =
     (if option_name = ''cost_class'' then
        (case option_val of
           PDict items \<Rightarrow>
             (case getattr backend_model ''costs'' of
                None \<Rightarrow> Inl (AttributeError ''costs'')
              | Some (SetC costs) \<Rightarrow>
                  (let objective_cost_class = filter (\<lambda>(k, v). k \<in> set costs) items
                   in Inr (setattr backend_model ''objective_cost_class''
                        (ParamC [''costs''] (map (\<lambda>(k, v). ([k], v)) objective_cost_class)
                           None True ''Reals'')))
              | Some other \<Rightarrow> Inl (TypeError ''costs''))
         | other \<Rightarrow> Inl (AttributeError ''items''))
      else Inr (setattr backend_model (''objective_'' @ option_name) (Attr option_val)))"

fun build_objective_option_loop ::
  "('e, 'c) model \<Rightarrow> (string \<times> pyval) list \<Rightarrow> error + ('e, 'c) model" where
  "build_objective_option_loop backend_model [] = Inr backend_model"
| "build_objective_option_loop backend_model ((option_name, option_val) # rest) =
     (case build_objective_option backend_model option_name option_val of
        Inl e \<Rightarrow> Inl e
      | Inr m \<Rightarrow> build_objective_option_loop m rest)"

definition build_params ::
  "(data_var \<Rightarrow> string) \<Rightarrow> dataset \<Rightarrow> ('e, 'c) model \<Rightarrow> error + ('e, 'c) model" where
  "build_params get_domain model_data backend_model =
     (let defaults = attrs_defaults model_data;
          run_config = attrs_run_config model_data;
          m1 = setattr backend_model ''__calliope_defaults'' (Attr (PDict defaults));
          m2 = setattr m1 ''__calliope_run_config'' (Attr (PDict run_config))
      in case build_param_loop get_domain defaults run_config m2 (data_vars model_data) of
           Inl e \<Rightarrow> Inl e
         | Inr m3 \<Rightarrow>
             (case map_of run_config ''objective_options'' of
                None \<Rightarrow> Inl (KeyError ''objective_options'')
              | Some (PDict opts) \<Rightarrow>
                  (case build_objective_option_loop m3 opts of
                     Inl e \<Rightarrow> Inl e
                   | Inr m4 \<Rightarrow>
                       Inr (setattr m4 ''bigM''
                         (ParamC []
                            [([], case map_of run_config ''bigM'' of
                                    None \<Rightarrow> PFloat (Fin 10000000000)
                                  | Some b \<Rightarrow> b)]
                            None True ''NonNegativeReals'')))
              | Some other \<Rightarrow> Inl (AttributeError ''items'')))"

text \<open>
  A parameter read at an index: the initialisation data first, then the default that was
  supplied separately; with neither, Pyomo raises.
\<close>

definition param_value :: "('e, 'c) component \<Rightarrow> idx \<Rightarrow> error + pyval" where
  "param_value p t =
     (case p of
        ParamC ds initialize default_value mutable domain \<Rightarrow>
          (case map_of initialize t of
             Some x \<Rightarrow> Inr x
           | None \<Rightarrow> (case default_value of Some d \<Rightarrow> Inr d | None \<Rightarrow> Inl (KeyError (concat t))))
      | other \<Rightarrow> Inl (TypeError ''not a parameter''))"

section \<open>Variables\<close>

text \<open>
  A variable keeps its bounds specification: \<open>get_capacity_bounds(config.bounds)\<close> is the
  function Pyomo calls per tuple. Its values, empty until a solution is loaded, are the last
  field.
\<close>

fun build_variables ::
  "('e, 'c) model \<Rightarrow> (name \<times> family_config) list \<Rightarrow> (name \<times> idx list) list
     \<Rightarrow> error + ('e, 'c) model" where
  "build_variables backend_model variable_configs [] = Inr backend_model"
| "build_variables backend_model variable_configs ((var_name, imask) # imasks) =
     (case map_of variable_configs var_name of
        None \<Rightarrow> Inl (KeyError var_name)
      | Some config \<Rightarrow>
          build_variables
            (setattr backend_model var_name (VarC imask (cfg_domain config) (cfg_bounds config) []))
            variable_configs imasks)"

section \<open>Expressions and constraints\<close>

text \<open>
  The module \<open>constraints\<close> is the rule registry: \<open>hasattr(constraints, n)\<close> and
  \<open>getattr(constraints, n)\<close> read it by attribute name. A rule is a function of the model
  and an index tuple.
\<close>

type_synonym ('e, 'c, 'r) registry = "name \<Rightarrow> (('e, 'c) model \<Rightarrow> idx \<Rightarrow> 'r) option"

datatype ('e, 'c) expr_kwargs =
    Rule "('e, 'c) model \<Rightarrow> idx \<Rightarrow> 'e"
  | Initialize pyfloat

definition po_Expression ::
  "('e, 'c) model \<Rightarrow> idx list \<Rightarrow> ('e, 'c) expr_kwargs \<Rightarrow> ('e, 'c) component" where
  "po_Expression m imask kwargs =
     ExpressionC imask
       (map (\<lambda>t. (t, case kwargs of Rule r \<Rightarrow> Built (r m t) | Initialize x \<Rightarrow> Const x)) imask)"

definition po_Constraint ::
  "('e, 'c) model \<Rightarrow> idx list \<Rightarrow> (('e, 'c) model \<Rightarrow> idx \<Rightarrow> 'c) \<Rightarrow> ('e, 'c) component" where
  "po_Constraint m imask rule = ConstraintC imask (map (\<lambda>t. (t, rule m t)) imask)"

fun build_expressions ::
  "('e, 'c, 'e) registry \<Rightarrow> ('e, 'c) model \<Rightarrow> (name \<times> idx list) list \<Rightarrow> ('e, 'c) model" where
  "build_expressions constraints backend_model [] = backend_model"
| "build_expressions constraints backend_model ((expression_name, imask) # imasks) =
     (let kwargs =
        (case constraints (expression_name @ ''_expression_rule'') of
           Some rule \<Rightarrow> Rule rule
         | None \<Rightarrow> Initialize (Fin 0))
      in build_expressions constraints
           (setattr backend_model expression_name (po_Expression backend_model imask kwargs))
           imasks)"

fun build_constraints ::
  "('e, 'c, 'c) registry \<Rightarrow> ('e, 'c) model \<Rightarrow> (name \<times> idx list) list
     \<Rightarrow> error + ('e, 'c) model" where
  "build_constraints constraints backend_model [] = Inr backend_model"
| "build_constraints constraints backend_model ((constraint_name, imask) # imasks) =
     (case constraints (constraint_name @ ''_constraint_rule'') of
        None \<Rightarrow> Inl (AttributeError (constraint_name @ ''_constraint_rule''))
      | Some rule \<Rightarrow>
          build_constraints constraints
            (setattr backend_model (constraint_name @ ''_constraint'')
               (po_Constraint backend_model imask rule))
            imasks)"

definition expression_value :: "('e, 'c) model \<Rightarrow> name \<Rightarrow> idx \<Rightarrow> 'e exprval option" where
  "expression_value m n t =
     (case getattr m n of Some (ExpressionC imask vals) \<Rightarrow> map_of vals t | _ \<Rightarrow> None)"

section \<open>The objective and the generation of the model\<close>

text \<open>
  \<open>load_function\<close>, \<open>build_imasks\<close>, \<open>convert_datetime\<close> and \<open>get_domain\<close> are imported
  from other modules, and the rule registry is the package \<open>constraints\<close>; they are the
  fields of \<open>externals\<close>, with the fresh \<open>po.ConcreteModel()\<close>, whose own attributes are
  \<^const>\<open>Builtin\<close>.
\<close>

record imasks =
  im_variables :: "(name \<times> idx list) list"
  im_expressions :: "(name \<times> idx list) list"
  im_constraints :: "(name \<times> idx list) list"

record ('e, 'c) externals =
  ConcreteModel :: "('e, 'c) model"
  convert_datetime :: "dataset \<Rightarrow> string \<Rightarrow> dataset"
  build_imasks :: "dataset \<Rightarrow> imask_config \<Rightarrow> error + imasks"
  get_domain :: "data_var \<Rightarrow> string"
  expression_rules :: "('e, 'c, 'e) registry"
  constraint_rules :: "('e, 'c, 'c) registry"
  load_function :: "string \<Rightarrow> error + (('e, 'c) model \<Rightarrow> error + ('e, 'c) model)"

definition build_objective ::
  "(string \<Rightarrow> error + (('e, 'c) model \<Rightarrow> error + ('e, 'c) model)) \<Rightarrow> ('e, 'c) model
     \<Rightarrow> error + ('e, 'c) model" where
  "build_objective load backend_model =
     (case getattr backend_model ''__calliope_run_config'' of
        Some (Attr (PDict run_config)) \<Rightarrow>
          (case map_of run_config ''objective'' of
             None \<Rightarrow> Inl (KeyError ''objective'')
           | Some (PStr objective) \<Rightarrow>
               (case load (''calliope.backend.pyomo.objective.'' @ objective) of
                  Inl e \<Rightarrow> Inl e
                | Inr objective_function \<Rightarrow> objective_function backend_model)
           | Some other \<Rightarrow> Inl (TypeError ''objective''))
      | other \<Rightarrow> Inl (AttributeError ''__calliope_run_config''))"

text \<open>
  \<open>generate_model\<close> returns the model, or raises what the first failing step raises. The
  conversion of the dataset's datetimes back, after the last step, changes the dataset only.
\<close>

definition generate_model :: "('e, 'c) externals \<Rightarrow> dataset \<Rightarrow> error + ('e, 'c) model" where
  "generate_model ext model_data0 =
     (let backend_model = ConcreteModel ext;
          model_data = convert_datetime ext model_data0 ''int'';
          imask_config = attrs_imasks model_data
      in case build_imasks ext model_data imask_config of
           Inl e \<Rightarrow> Inl e
         | Inr ims \<Rightarrow>
             (case build_params (get_domain ext) model_data (build_sets model_data backend_model) of
                Inl e \<Rightarrow> Inl e
              | Inr m2 \<Rightarrow>
                  (case build_variables m2 (ic_variables imask_config) (im_variables ims) of
                     Inl e \<Rightarrow> Inl e
                   | Inr m3 \<Rightarrow>
                       (case build_constraints (constraint_rules ext)
                               (build_expressions (expression_rules ext) m3 (im_expressions ims))
                               (im_constraints ims) of
                          Inl e \<Rightarrow> Inl e
                        | Inr m5 \<Rightarrow> build_objective (load_function ext) m5))))"

section \<open>Solving\<close>

text \<open>
  What the functions do besides returning a value is a change of the \<open>world\<close>: the two
  standard streams of the Python process (\<open>sys.stdout\<close>, \<open>sys.stderr\<close>) and what has been
  written to the process's own streams, the records of the logging subsystem, the warnings
  recorded, Pyomo's temporary directory, the level of the \<open>gurobipy\<close> logger and the calls
  made to the solver.
\<close>

datatype level = DEBUG | ERROR | CRITICAL

datatype stream = ProcessStdout | ProcessStderr | LogWriter level bool

datatype fd = Stdout | Stderr

record solver =
  solver_name :: string
  solver_io :: "string option"
  options :: "(string \<times> pyval) list"

record world =
  sys_stdout :: stream
  sys_stderr :: stream
  process_stdout :: "string list"
  process_stderr :: "string list"
  log_records :: "(level \<times> string) list"
  warnings :: "string list"
  tempdir :: "string option"
  gurobipy_level :: "level option"
  solve_calls :: "(solver \<times> (string \<times> pyval) list) list"

record results =
  termination_condition :: string
  problem_text :: string
  solver_text :: string

text \<open>
  Modelled from the spec: \<open>exceptions.warn\<close> (\<open>calliope/exceptions.py\<close>) is not among the
  sources; the specification has a call of it record a warning.
\<close>

definition warn :: "string \<Rightarrow> world \<Rightarrow> world" where
  "warn message w = w\<lparr>warnings := warnings w @ [message]\<rparr>"

text \<open>
  Modelled from the spec: \<open>LogWriter\<close> (\<open>calliope/core/util/logging.py\<close>) is not among the
  sources; the specification has what is written to it captured by the logging subsystem
  at the writer's severity.
\<close>

fun stream_write :: "stream \<Rightarrow> string \<Rightarrow> world \<Rightarrow> world" where
  "stream_write ProcessStdout s w = w\<lparr>process_stdout := process_stdout w @ [s]\<rparr>"
| "stream_write ProcessStderr s w = w\<lparr>process_stderr := process_stderr w @ [s]\<rparr>"
| "stream_write (LogWriter lvl strip) s w = w\<lparr>log_records := log_records w @ [(lvl, s)]\<rparr>"

definition emit :: "fd \<times> string \<Rightarrow> world \<Rightarrow> world" where
  "emit ev w =
     (case ev of (Stdout, s) \<Rightarrow> stream_write (sys_stdout w) s w | (Stderr, s) \<Rightarrow> stream_write (sys_stderr w) s w)"

text \<open>The log record a captured line of solver output becomes under the redirection.\<close>

definition severity :: "fd \<times> string \<Rightarrow> level \<times> string" where
  "severity ev = (case ev of (Stdout, s) \<Rightarrow> (DEBUG, s) | (Stderr, s) \<Rightarrow> (ERROR, s))"

text \<open>
  \<open>contextlib.redirect_stdout\<close> and \<open>redirect_stderr\<close>: the stream is replaced on entry and
  the previous one put back on exit, whether the body returns or raises.
\<close>

definition redirect_stdout :: "stream \<Rightarrow> (world \<Rightarrow> 'a \<times> world) \<Rightarrow> world \<Rightarrow> 'a \<times> world" where
  "redirect_stdout new_target body w =
     (let old_target = sys_stdout w;
          (r, w') = body (w\<lparr>sys_stdout := new_target\<rparr>)
      in (r, w'\<lparr>sys_stdout := old_target\<rparr>))"

definition redirect_stderr :: "stream \<Rightarrow> (world \<Rightarrow> 'a \<times> world) \<Rightarrow> world \<Rightarrow> 'a \<times> world" where
  "redirect_stderr new_target body w =
     (let old_target = sys_stderr w;
          (r, w') = body (w\<lparr>sys_stderr := new_target\<rparr>)
      in (r, w'\<lparr>sys_stderr := old_target\<rparr>))"

text \<open>
  The solver is external: \<open>run_solver\<close> gives, for a call of \<open>opt.solve\<close>, what the solver
  prints, in order, and what the call returns or raises. \<open>opt.solve(backend_model,
  tee=True, **solve_kwargs)\<close> is a \<open>TypeError\<close> when \<open>solve_kwargs\<close> has the key \<open>tee\<close> too.
\<close>

definition opt_solve ::
  "(solver \<Rightarrow> 'm \<Rightarrow> (string \<times> pyval) list \<Rightarrow> (fd \<times> string) list \<times> (error + results))
     \<Rightarrow> solver \<Rightarrow> 'm \<Rightarrow> (string \<times> pyval) list \<Rightarrow> world \<Rightarrow> (error + results) \<times> world" where
  "opt_solve run_solver opt backend_model solve_kwargs w =
     (if ''tee'' \<in> fst ` set solve_kwargs then (Inl (TypeError ''tee''), w)
      else
        (let kwargs = (''tee'', PBool True) # solve_kwargs;
             (output, r) = run_solver opt backend_model kwargs
         in (r, fold emit output (w\<lparr>solve_calls := solve_calls w @ [(opt, kwargs)]\<rparr>))))"

text \<open>
  \<open>solve_model\<close>. \<open>save_logs\<close> is \<open>None\<close> for the default \<open>False\<close>; \<open>makedirs\<close> tells
  whether \<open>os.makedirs(save_logs, exist_ok=True)\<close> raises.
\<close>

definition solve_model ::
  "(solver \<Rightarrow> 'm \<Rightarrow> (string \<times> pyval) list \<Rightarrow> (fd \<times> string) list \<times> (error + results))
     \<Rightarrow> (string \<Rightarrow> error option)
     \<Rightarrow> 'm \<Rightarrow> string \<Rightarrow> string option \<Rightarrow> (string \<times> pyval) list option \<Rightarrow> string option
     \<Rightarrow> (string \<times> pyval) list \<Rightarrow> world \<Rightarrow> (error + results) \<times> world" where
  "solve_model run_solver makedirs backend_model solver_arg solver_io_arg solver_options
       save_logs solve_kwargs0 w0 =
     (let opt0 = \<lparr>solver_name = solver_arg, solver_io = solver_io_arg, options = []\<rparr>;
          opt = (case solver_options of
                   None \<Rightarrow> opt0
                 | Some os \<Rightarrow> opt0\<lparr>options := fold (\<lambda>(k, v). AList.update k v) os []\<rparr>);
          logs = (case save_logs of None \<Rightarrow> False | Some d \<Rightarrow> d \<noteq> [])
      in case (if logs then makedirs (the save_logs) else None) of
           Some e \<Rightarrow> (Inl e, w0)
         | None \<Rightarrow>
             (let solve_kwargs1 =
                    (if logs
                     then AList.update ''keepfiles'' (PBool True)
                            (AList.update ''symbolic_solver_labels'' (PBool True) solve_kwargs0)
                     else solve_kwargs0);
                  w1 = (if logs then w0\<lparr>tempdir := save_logs\<rparr> else w0);
                  unsupported =
                    (''warmstart'' \<in> fst ` set solve_kwargs1 \<and> solver_arg \<in> set [''glpk'', ''cbc'']);
                  w2 = (if unsupported
                        then warn (''The chosen solver, '' @ solver_arg
                                     @ '', does not suport warmstart, which may impact performance.'') w1
                        else w1);
                  solve_kwargs = (if unsupported then AList.delete ''warmstart'' solve_kwargs1
                                  else solve_kwargs1)
              in redirect_stdout (LogWriter DEBUG True)
                   (redirect_stderr (LogWriter ERROR True)
                      (\<lambda>w. opt_solve run_solver opt backend_model solve_kwargs
                             (w\<lparr>gurobipy_level := Some ERROR\<rparr>)))
                   w2))"

text \<open>
  The keyword arguments \<open>solve_model\<close> passes on to \<open>opt.solve\<close>, besides \<open>tee\<close>: the
  caller's, with the two log options when logs are saved, and without \<open>warmstart\<close> for a
  solver that does not support it.
\<close>

definition final_kwargs :: "string \<Rightarrow> string option \<Rightarrow> (string \<times> pyval) list \<Rightarrow> (string \<times> pyval) list" where
  "final_kwargs solver_arg save_logs kw =
     (let logs = (case save_logs of None \<Rightarrow> False | Some d \<Rightarrow> d \<noteq> []);
          k1 = (if logs
                then AList.update ''keepfiles'' (PBool True)
                       (AList.update ''symbolic_solver_labels'' (PBool True) kw)
                else kw)
      in if ''warmstart'' \<in> fst ` set k1 \<and> solver_arg \<in> set [''glpk'', ''cbc'']
         then AList.delete ''warmstart'' k1 else k1)"

section \<open>Loading the results\<close>

text \<open>Python's \<open>s.split(sep)\<close> for a one-character separator.\<close>

fun str_split :: "char \<Rightarrow> string \<Rightarrow> string list" where
  "str_split sep [] = [[]]"
| "str_split sep (c # cs) =
     (if c = sep then [] # str_split sep cs
      else (case str_split sep cs of l # ls \<Rightarrow> (c # l) # ls | [] \<Rightarrow> [[c]]))"

definition critical :: "string \<Rightarrow> world \<Rightarrow> world" where
  "critical l w = w\<lparr>log_records := log_records w @ [(CRITICAL, l)]\<rparr>"

text \<open>
  \<open>exceptions.BackendWarning\<close> is a warning class: the expression statement
  \<open>exceptions.BackendWarning(message)\<close> builds an instance of it, which is dropped.
\<close>

datatype warning_instance = BackendWarning string

text \<open>
  \<open>load_results\<close>. \<open>backend_model.solutions.load_from(results)\<close> is Pyomo's: \<open>load_from\<close>
  gives what it returns or raises, and the model with the solution loaded.
\<close>

definition load_results ::
  "('m \<Rightarrow> results \<Rightarrow> (error + pyval) \<times> 'm) \<Rightarrow> 'm \<Rightarrow> results \<Rightarrow> world
     \<Rightarrow> (error + string) \<times> 'm \<times> world" where
  "load_results load_from backend_model res w =
     (let not_optimal = (termination_condition res \<noteq> ''optimal'')
      in case load_from backend_model res of
           (Inl e, m) \<Rightarrow> (Inl e, m, w)
         | (Inr this_result, m) \<Rightarrow>
             (if this_result = PBool False \<or> not_optimal
              then
                (let w1 = critical ''Problem status:'' w;
                     w2 = fold critical (str_split CHR 0x0A (problem_text res)) w1;
                     w3 = critical ''Solver status:'' w2;
                     w4 = fold critical (str_split CHR 0x0A (solver_text res)) w3;
                     message = (if not_optimal then ''Model solution was non-optimal.''
                                else ''Could not load results into model instance.'');
                     dropped = BackendWarning message
                 in (Inr (termination_condition res), m, w4))
              else (Inr (termination_condition res), m, w)))"

section \<open>Extraction of the result arrays\<close>

definition get_dim_order :: "dataset \<Rightarrow> name list \<Rightarrow> name list" where
  "get_dim_order model_data fe = filter (\<lambda>i. i \<in> set fe) (dims model_data)"

fun is_Var :: "('e, 'c) component \<Rightarrow> bool" where
  "is_Var (VarC imask d b vals) = True"
| "is_Var c = False"

fun is_Expression :: "('e, 'c) component \<Rightarrow> bool" where
  "is_Expression (ExpressionC imask vals) = True"
| "is_Expression c = False"

fun is_Param :: "('e, 'c) component \<Rightarrow> bool" where
  "is_Param (ParamC ds initialize d mutable within_domain) = True"
| "is_Param c = False"

fun is_IndexedParam :: "('e, 'c) component \<Rightarrow> bool" where
  "is_IndexedParam (ParamC ds initialize d mutable within_domain) = (ds \<noteq> [])"
| "is_IndexedParam c = False"

fun param_mutable :: "('e, 'c) component \<Rightarrow> bool" where
  "param_mutable (ParamC ds initialize d mutable within_domain) = mutable"
| "param_mutable c = False"

definition component_objects ::
  "(('e, 'c) component \<Rightarrow> bool) \<Rightarrow> ('e, 'c) model \<Rightarrow> name list" where
  "component_objects ctype backend_model = map fst (filter (\<lambda>(n, c). ctype c) backend_model)"

text \<open>Python's \<open>p in s\<close> on strings.\<close>

fun str_contains :: "string \<Rightarrow> string \<Rightarrow> bool" where
  "str_contains p [] = (p = [])"
| "str_contains p (c # cs) = (take (length p) (c # cs) = p \<or> str_contains p cs)"

text \<open>
  Modelled from the spec: \<open>get_var\<close> (\<open>calliope/backend/pyomo/util.py\<close>) is not among the
  sources. The specification has it scatter the component's sparse values, keyed by the
  active tuples, into a dense array over the given dimensions, the cells of no active tuple
  left undefined (NaN). The labels of a dimension are those of the model's set of that
  name; without dimensions given, they are the component's index sets. \<open>po_value\<close> is
  Pyomo's evaluation of a built expression.
\<close>

definition labels_of :: "('e, 'c) model \<Rightarrow> name \<Rightarrow> label list" where
  "labels_of m d = (case getattr m d of Some (SetC ls) \<Rightarrow> ls | other \<Rightarrow> [])"

definition sparse_values :: "('e \<Rightarrow> pyval) \<Rightarrow> ('e, 'c) component option \<Rightarrow> (idx \<times> pyval) list" where
  "sparse_values po_value c =
     (case c of
        Some (VarC imask d b vals) \<Rightarrow> vals
      | Some (ExpressionC imask vals) \<Rightarrow>
          map (\<lambda>(t, x). (t, case x of Const f \<Rightarrow> PFloat f | Built e \<Rightarrow> po_value e)) vals
      | Some (ParamC ds initialize d mutable within_domain) \<Rightarrow> initialize
      | other \<Rightarrow> [])"

definition index_dims :: "('e, 'c) component option \<Rightarrow> name list" where
  "index_dims c = (case c of Some (ParamC ds initialize d mutable within_domain) \<Rightarrow> ds | other \<Rightarrow> [])"

definition get_var ::
  "('e \<Rightarrow> pyval) \<Rightarrow> ('e, 'c) model \<Rightarrow> name \<Rightarrow> name list \<Rightarrow> data_var" where
  "get_var po_value backend_model var dims_arg =
     (let var_container = getattr backend_model var;
          ds = (if dims_arg = [] then index_dims var_container else dims_arg);
          sparse = sparse_values po_value var_container;
          shape = map (labels_of backend_model) ds
      in \<lparr>dv_dims = ds, dv_coords = shape,
          dv_series = map (\<lambda>t. (t, case map_of sparse t of Some x \<Rightarrow> x | None \<Rightarrow> PFloat NaN))
                        (product_lists shape),
          dv_attrs = []\<rparr>)"


text \<open>
  The two dictionary comprehensions that build \<open>all_variables\<close>: one array per variable of
  the model, then one per expression, each over the dimensions \<open>_get_dim_order\<close> gives for
  the family's \<open>foreach\<close>. A family without an entry in the configuration is a \<open>KeyError\<close>.
\<close>

fun get_family_arrays ::
  "('e \<Rightarrow> pyval) \<Rightarrow> ('e, 'c) model \<Rightarrow> dataset \<Rightarrow> (name \<times> family_config) list \<Rightarrow> name list
     \<Rightarrow> error + (name \<times> data_var) list" where
  "get_family_arrays po_value backend_model model_data configs [] = Inr []"
| "get_family_arrays po_value backend_model model_data configs (n # ns) =
     (case map_of configs n of
        None \<Rightarrow> Inl (KeyError n)
      | Some config \<Rightarrow>
          (case get_family_arrays po_value backend_model model_data configs ns of
             Inl e \<Rightarrow> Inl e
           | Inr rest \<Rightarrow>
               Inr ((n, get_var po_value backend_model n
                          (get_dim_order model_data (foreach config))) # rest)))"

definition all_variables ::
  "('e \<Rightarrow> pyval) \<Rightarrow> ('e, 'c) model \<Rightarrow> dataset \<Rightarrow> error + (name \<times> data_var) list" where
  "all_variables po_value backend_model model_data =
     (let imask_config = attrs_imasks model_data
      in case get_family_arrays po_value backend_model model_data (ic_variables imask_config)
                (component_objects is_Var backend_model) of
           Inl e \<Rightarrow> Inl e
         | Inr vs \<Rightarrow>
             (case get_family_arrays po_value backend_model model_data (ic_expressions imask_config)
                     (component_objects is_Expression backend_model) of
                Inl e \<Rightarrow> Inl e
              | Inr es \<Rightarrow> Inr (fold (\<lambda>(k, v). AList.update k v) es (to_dict vs))))"

text \<open>
  The parameters that did not come from the input dataset: the parameters of the model
  whose name is no data variable of the dataset, does not contain \<open>objective_\<close>, and which
  are instances of \<open>IndexedParam\<close>.
\<close>

definition all_params ::
  "('e \<Rightarrow> pyval) \<Rightarrow> ('e, 'c) model \<Rightarrow> dataset \<Rightarrow> (name \<times> data_var) list" where
  "all_params po_value backend_model model_data =
     to_dict
       (map (\<lambda>(n, c). (n, get_var po_value backend_model n []))
          (filter (\<lambda>(n, c). is_Param c \<and> n \<notin> fst ` set (data_vars model_data)
                              \<and> \<not> str_contains ''objective_'' n \<and> is_IndexedParam c)
             backend_model))"

text \<open>
  \<open>xr.Dataset(arrays)\<close> has the arrays as its data variables, with their dimensions and
  labels; \<open>Dataset.update\<close> adds the other dataset's variables, replacing those of the same
  name.
\<close>

definition xr_Dataset :: "(name \<times> data_var) list \<Rightarrow> dataset" where
  "xr_Dataset arrays =
     \<lparr>coords = to_dict (concat (map (\<lambda>(n, a). zip (dv_dims a) (dv_coords a)) arrays)),
      dims = remdups (concat (map (\<lambda>(n, a). dv_dims a) arrays)),
      data_vars = arrays,
      attrs_defaults = [], attrs_run_config = [],
      attrs_imasks = \<lparr>ic_variables = [], ic_expressions = [], ic_constraints = []\<rparr>\<rparr>"

definition update :: "dataset \<Rightarrow> dataset \<Rightarrow> dataset" where
  "update d other =
     d\<lparr>data_vars := fold (\<lambda>(k, v). AList.update k v) (data_vars other) (data_vars d),
       coords := fold (\<lambda>(k, v). AList.update k v) (coords other) (coords d),
       dims := dims d @ filter (\<lambda>i. i \<notin> set (dims d)) (dims other)\<rparr>"

definition set_is_result :: "dataset \<Rightarrow> dataset" where
  "set_is_result d =
     d\<lparr>data_vars :=
         map (\<lambda>(n, a). (n, a\<lparr>dv_attrs := AList.update ''is_result'' (PInt 0) (dv_attrs a)\<rparr>))
           (data_vars d)\<rparr>"

text \<open>
  \<open>get_result_array\<close> returns the result dataset, or raises, and changes the caller's
  dataset in place: the second component is the dataset afterwards.
  \<open>reorganise_xarray_dimensions\<close> (\<open>calliope/core/util/dataset.py\<close>) and \<open>pd.to_datetime\<close>
  are parameters.
\<close>

definition get_result_array ::
  "('e \<Rightarrow> pyval) \<Rightarrow> (dataset \<Rightarrow> dataset) \<Rightarrow> (label \<Rightarrow> label) \<Rightarrow> ('e, 'c) model \<Rightarrow> dataset
     \<Rightarrow> (error + dataset) \<times> dataset" where
  "get_result_array po_value reorganise_xarray_dimensions to_datetime backend_model model_data =
     (case all_variables po_value backend_model model_data of
        Inl e \<Rightarrow> (Inl e, model_data)
      | Inr vars \<Rightarrow>
          (let params = all_params po_value backend_model model_data;
               res = reorganise_xarray_dimensions (xr_Dataset vars);
               model_data' =
                 (if params \<noteq> []
                  then update model_data
                         (set_is_result (reorganise_xarray_dimensions (xr_Dataset params)))
                  else model_data)
           in case map_of (coords res) ''timesteps'' of
                None \<Rightarrow> (Inl (AttributeError ''timesteps''), model_data')
              | Some ts \<Rightarrow>
                  (Inr (res\<lparr>coords := AList.update ''timesteps'' (map to_datetime ts) (coords res)\<rparr>),
                   model_data')))"

section \<open>Example inputs\<close>

text \<open>
  A small dataset: two cost classes, two technologies, two timesteps, a run configuration
  whose objective options weigh the cost classes, one variable family and one constraint
  family; and the collaborators of \<open>generate_model\<close>, with three constraint families of
  which only the first, \<open>balance\<close>, has a rule in the registry.
\<close>

definition example_dataset :: dataset where
  "example_dataset =
     \<lparr>coords = [(''costs'', [''monetary'', ''co2'']), (''techs'', [''A'', ''B'']),
                (''timesteps'', [''t0'', ''t1''])],
      dims = [''costs'', ''techs'', ''timesteps''],
      data_vars = [],
      attrs_defaults = [],
      attrs_run_config =
        [(''mode'', PStr ''plan''), (''objective'', PStr ''minmax_cost_optimization''),
         (''objective_options'',
            PDict [(''cost_class'', PDict [(''monetary'', PInt 1), (''co2'', PInt 0)]),
                   (''sense'', PStr ''minimize'')])],
      attrs_imasks =
        \<lparr>ic_variables =
           [(''energy_cap'',
               \<lparr>foreach = [''timesteps'', ''techs''], cfg_domain = ''NonNegativeReals'',
                cfg_bounds = None\<rparr>)],
         ic_expressions = [],
         ic_constraints =
           [(''demand'',
               \<lparr>foreach = [''techs''], cfg_domain = ''Reals'', cfg_bounds = None\<rparr>)]\<rparr>\<rparr>"

definition example_externals :: "(nat, nat) externals" where
  "example_externals =
     \<lparr>ConcreteModel = [(''name'', Builtin)],
      convert_datetime = (\<lambda>d t. d),
      build_imasks =
        (\<lambda>d c. Inr \<lparr>im_variables = [(''energy_cap'', [[''A'', ''t0''], [''A'', ''t1'']])],
                     im_expressions = [],
                     im_constraints = [(''balance'', [[''A'']]), (''demand'', [[''A'']]),
                                       (''reserve'', [[''B'']])]\<rparr>),
      get_domain = (\<lambda>v. ''Reals''),
      expression_rules = Map.empty,
      constraint_rules = [''balance_constraint_rule'' \<mapsto> (\<lambda>m t. 0)],
      load_function = (\<lambda>s. Inl (AttributeError s))\<rparr>"

definition example_world :: world where
  "example_world =
     \<lparr>sys_stdout = ProcessStdout, sys_stderr = ProcessStderr,
      process_stdout = [], process_stderr = [], log_records = [], warnings = [],
      tempdir = None, gurobipy_level = None, solve_calls = []\<rparr>"

text \<open>
  A data variable with an infinite entry, and a model that has the attribute \<open>name\<close> of
  its own and the set \<open>techs\<close>.
\<close>

definition example_var :: data_var where
  "example_var =
     \<lparr>dv_dims = [''techs''], dv_coords = [[''A'', ''B'']],
      dv_series = [([''A''], PFloat (Fin 5)), ([''B''], PFloat PosInf)],
      dv_attrs = [(''is_result'', PInt 0)]\<rparr>"

definition example_model :: "(nat, nat) model" where
  "example_model = [(''name'', Builtin), (''techs'', SetC [''A'', ''B''])]"

text \<open>
  The example dataset with the data variable as its input, and a solved model: the sets,
  the parameter of the input, the parameters of the objective options, a parameter \<open>p\<close>
  that is not an input and not mutable, and a variable active for technology \<open>A\<close> only.
\<close>

definition example_inputs :: dataset where
  "example_inputs = example_dataset\<lparr>data_vars := [(''energy_cap_max'', example_var)]\<rparr>"

definition example_solved_model :: "(nat, nat) model" where
  "example_solved_model =
     [(''costs'', SetC [''monetary'', ''co2'']),
      (''techs'', SetC [''A'', ''B'']),
      (''timesteps'', SetC [''t0'', ''t1'']),
      (''energy_cap_max'', ParamC [''techs''] [([''A''], PFloat (Fin 5))] None True ''Reals''),
      (''objective_cost_class'',
         ParamC [''costs''] [([''monetary''], PInt 1), ([''co2''], PInt 0)] None True ''Reals''),
      (''bigM'', ParamC [] [([], PFloat (Fin 10000000000))] None True ''NonNegativeReals''),
      (''p'', ParamC [''techs''] [([''A''], PFloat (Fin 1))] None False ''Reals''),
      (''energy_cap'',
         VarC [[''A'', ''t0''], [''A'', ''t1'']] ''NonNegativeReals'' None
           [([''A'', ''t0''], PFloat (Fin 3)), ([''A'', ''t1''], PFloat (Fin 4))])]"

fun raises_ConfigurationError :: "error + 'a \<Rightarrow> bool" where
  "raises_ConfigurationError (Inl (ConfigurationError s)) = True"
| "raises_ConfigurationError r = False"

section \<open>Helper lemmas\<close>

lemma getattr_setattr: "getattr (setattr m k c) k' = (if k' = k then Some c else getattr m k')"
  by (simp add: getattr_def setattr_def update_conv')

lemma map_of_const_map: "t \<in> set xs \<Longrightarrow> map_of (map (\<lambda>t. (t, f t)) xs) t = Some (f t)"
  by (induction xs) auto

lemma build_expressions_other:
  "n \<notin> fst ` set imasks \<Longrightarrow> getattr (build_expressions reg m imasks) n = getattr m n"
  by (induction imasks arbitrary: m) (auto simp: getattr_setattr Let_def)

lemma build_expressions_declares:
  assumes "distinct (map fst imasks)" and "(n, imask) \<in> set imasks"
    and "constraints (n @ ''_expression_rule'') = None"
  shows "getattr (build_expressions constraints m imasks) n
           = Some (ExpressionC imask (map (\<lambda>t. (t, Const (Fin 0))) imask))"
  using assms
proof (induction imasks arbitrary: m)
  case Nil
  then show ?case by simp
next
  case (Cons a imasks)
  obtain n' imask' where a: "a = (n', imask')" by (cases a)
  show ?case
  proof (cases "(n, imask) = a")
    case True
    with Cons.prems a have "n \<notin> fst ` set imasks" by auto
    with True a Cons.prems(3) show ?thesis
      by (simp add: build_expressions_other getattr_setattr po_Expression_def)
  next
    case False
    with Cons.prems a have "(n, imask) \<in> set imasks" "distinct (map fst imasks)" by auto
    with Cons.IH Cons.prems(3) a show ?thesis by (simp add: Let_def)
  qed
qed

section \<open>Expressions without a rule\<close>

text \<open>
  C1. \<open>imasks\<close> is a dictionary, so its keys are distinct. For every expression family of
  \<open>imasks\<close> for which the registry has no attribute \<open>{family}_expression_rule\<close>,
  \<open>build_expressions\<close> does not fail: it declares the expression over the family's active
  tuples, and the expression's value at every one of these tuples is the constant zero.
\<close>

theorem build_expressions_unregistered_zero:
  assumes "distinct (map fst imasks)" and "(n, imask) \<in> set imasks"
    and "constraints (n @ ''_expression_rule'') = None"
  shows "getattr (build_expressions constraints m imasks) n
           = Some (ExpressionC imask (map (\<lambda>t. (t, Const (Fin 0))) imask))
         \<and> (\<forall>t \<in> set imask.
               expression_value (build_expressions constraints m imasks) n t = Some (Const (Fin 0)))"
  using assms
  by (simp add: build_expressions_declares expression_value_def map_of_const_map)

theorem build_expressions_unregistered_zero_witness:
  "expression_value
     (build_expressions (Map.empty :: (nat, nat, nat) registry) []
        [(''cost'', [[''A'', ''t0''], [''A'', ''t1'']])]) ''cost'' [''A'', ''t1'']
     = Some (Const (Fin 0))"
proof -
  have "distinct (map fst [(''cost'', [[''A'', ''t0''], [''A'', ''t1'']])])" by simp
  moreover have "(''cost'', [[''A'', ''t0''], [''A'', ''t1'']])
      \<in> set [(''cost'', [[''A'', ''t0''], [''A'', ''t1'']])]"
    by simp
  moreover have "(Map.empty :: (nat, nat, nat) registry) (''cost'' @ ''_expression_rule'') = None"
    by simp
  ultimately show ?thesis
    using build_expressions_unregistered_zero
      [of "[(''cost'', [[''A'', ''t0''], [''A'', ''t1'']])]" "''cost''"
          "[[''A'', ''t0''], [''A'', ''t1'']]" "Map.empty :: (nat, nat, nat) registry" "[]"]
    by simp
qed

section \<open>Constraints without a rule\<close>

lemma build_constraints_first_unregistered:
  assumes "imasks = pre @ (n', imask') # post"
    and "\<forall>k \<in> fst ` set pre. constraints (k @ ''_constraint_rule'') \<noteq> None"
    and "constraints (n' @ ''_constraint_rule'') = None"
  shows "build_constraints constraints m imasks = Inl (AttributeError (n' @ ''_constraint_rule''))"
  using assms
proof (induction pre arbitrary: m imasks)
  case Nil
  then show ?case by simp
next
  case (Cons a pre)
  obtain k imask where a: "a = (k, imask)" by (cases a)
  from Cons.prems(2) a obtain rule where r: "constraints (k @ ''_constraint_rule'') = Some rule"
    by auto
  have "build_constraints constraints
          (setattr m (k @ ''_constraint'') (po_Constraint m imask rule))
          (pre @ (n', imask') # post) = Inl (AttributeError (n' @ ''_constraint_rule''))"
    using Cons.IH[OF refl _ Cons.prems(3)] Cons.prems(2) by simp
  with Cons.prems(1) a r show ?case by simp
qed

lemma first_unregistered_exists:
  assumes "(n, imask) \<in> set imasks" and "constraints (n @ ''_constraint_rule'') = None"
  shows "\<exists>pre n' imask' post. imasks = pre @ (n', imask') # post
           \<and> (\<forall>k \<in> fst ` set pre. constraints (k @ ''_constraint_rule'') \<noteq> None)
           \<and> constraints (n' @ ''_constraint_rule'') = None"
proof -
  have "\<exists>x \<in> set imasks. constraints (fst x @ ''_constraint_rule'') = None"
    using assms by force
  from split_list_first_prop[OF this]
  obtain pre x post where "imasks = pre @ x # post"
    "constraints (fst x @ ''_constraint_rule'') = None"
    "\<forall>y \<in> set pre. constraints (fst y @ ''_constraint_rule'') \<noteq> None" by blast
  then show ?thesis by (cases x) auto
qed

lemma generate_model_example:
  "generate_model example_externals example_dataset = Inl (AttributeError ''demand_constraint_rule'')"
  by (simp add: generate_model_def example_externals_def example_dataset_def build_sets_def
      build_params_def setattr_def getattr_def hasattr_def build_objective_option_def Let_def)

text \<open>
  C2, as the code has it. \<open>build_constraints\<close> reads the rule with
  \<open>getattr(constraints, ...)\<close> and no default, so a constraint family without a registered rule
  raises Python's \<open>AttributeError\<close>, not an error of the configuration category. The rest
  of the claim holds. The constraint families split, in their order, into families that all
  have a rule, then the first family \<open>n'\<close> that has none, then the rest; whatever model the
  step starts from, \<open>build_constraints\<close> raises the \<open>AttributeError\<close> for the rule of \<open>n'\<close>;
  \<open>generate_model\<close> returns no model, so nothing can be solved; and when the steps before
  the constraints succeed, the error \<open>generate_model\<close> raises is this one.
\<close>

theorem generate_model_unregistered_constraint:
  assumes ims: "build_imasks ext (convert_datetime ext model_data ''int'')
              (attrs_imasks (convert_datetime ext model_data ''int'')) = Inr ims"
    and fam: "(n, imask) \<in> set (im_constraints ims)"
    and unreg: "constraint_rules ext (n @ ''_constraint_rule'') = None"
  shows "\<exists>pre n' imask' post.
           im_constraints ims = pre @ (n', imask') # post
         \<and> (\<forall>k \<in> fst ` set pre. constraint_rules ext (k @ ''_constraint_rule'') \<noteq> None)
         \<and> constraint_rules ext (n' @ ''_constraint_rule'') = None
         \<and> (\<forall>m. build_constraints (constraint_rules ext) m (im_constraints ims)
                 = Inl (AttributeError (n' @ ''_constraint_rule'')))
         \<and> (\<exists>e. generate_model ext model_data = Inl e)
         \<and> (\<forall>m2 m3.
              build_params (get_domain ext) (convert_datetime ext model_data ''int'')
                 (build_sets (convert_datetime ext model_data ''int'') (ConcreteModel ext)) = Inr m2
              \<longrightarrow> build_variables m2
                    (ic_variables (attrs_imasks (convert_datetime ext model_data ''int'')))
                    (im_variables ims) = Inr m3
              \<longrightarrow> generate_model ext model_data = Inl (AttributeError (n' @ ''_constraint_rule'')))"
proof -
  from first_unregistered_exists
    [where constraints = "constraint_rules ext" and n = n and imask = imask
       and imasks = "im_constraints ims", OF fam unreg]
  obtain pre n' imask' post where
    split: "im_constraints ims = pre @ (n', imask') # post"
    and reg: "\<forall>k \<in> fst ` set pre. constraint_rules ext (k @ ''_constraint_rule'') \<noteq> None"
    and un: "constraint_rules ext (n' @ ''_constraint_rule'') = None"
    by blast
  have A: "\<And>m. build_constraints (constraint_rules ext) m (im_constraints ims)
                 = Inl (AttributeError (n' @ ''_constraint_rule''))"
    by (rule build_constraints_first_unregistered
        [where constraints = "constraint_rules ext", OF split reg un])
  have B: "\<exists>e. generate_model ext model_data = Inl e"
    unfolding generate_model_def Let_def using ims A
    by (auto split: sum.splits)
  have C: "\<And>m2 m3. build_params (get_domain ext) (convert_datetime ext model_data ''int'')
               (build_sets (convert_datetime ext model_data ''int'') (ConcreteModel ext)) = Inr m2
            \<Longrightarrow> build_variables m2 (ic_variables (attrs_imasks (convert_datetime ext model_data ''int'')))
                 (im_variables ims) = Inr m3
            \<Longrightarrow> generate_model ext model_data = Inl (AttributeError (n' @ ''_constraint_rule''))"
    unfolding generate_model_def Let_def using ims A by simp
  from split reg un A B C show ?thesis by blast
qed

theorem generate_model_unregistered_constraint_witness:
  "build_constraints (constraint_rules example_externals) []
       [(''balance'', [[''A'']]), (''demand'', [[''A'']]), (''reserve'', [[''B'']])]
     = Inl (AttributeError ''demand_constraint_rule'')
   \<and> generate_model example_externals example_dataset
     = Inl (AttributeError ''demand_constraint_rule'')"
proof -
  let ?ims = "\<lparr>im_variables = [(''energy_cap'', [[''A'', ''t0''], [''A'', ''t1'']])],
               im_expressions = [],
               im_constraints = [(''balance'', [[''A'']]), (''demand'', [[''A'']]),
                                 (''reserve'', [[''B'']])]\<rparr>"
  have 1: "build_imasks example_externals (convert_datetime example_externals example_dataset ''int'')
             (attrs_imasks (convert_datetime example_externals example_dataset ''int'')) = Inr ?ims"
    by (simp add: example_externals_def)
  have 2: "(''reserve'', [[''B'']]) \<in> set (im_constraints ?ims)" by simp
  have 3: "constraint_rules example_externals (''reserve'' @ ''_constraint_rule'') = None"
    by (simp add: example_externals_def)
  have 4: "build_constraints (constraint_rules example_externals) []
       [(''balance'', [[''A'']]), (''demand'', [[''A'']]), (''reserve'', [[''B'']])]
             = Inl (AttributeError ''demand_constraint_rule'')"
    by (simp add: example_externals_def)
  from generate_model_unregistered_constraint[OF 1 2 3]
  have "\<exists>e. generate_model example_externals example_dataset = Inl e" by blast
  with 4 show ?thesis
    by (simp add: generate_model_example)
qed

text \<open>
  The claim as written names the error a \<open>ConfigurationError\<close>; on the example, whose
  constraint families \<open>demand\<close> and \<open>reserve\<close> have no rule, model generation does not raise
  one.
\<close>

theorem generate_model_unregistered_not_ConfigurationError:
  "\<not> raises_ConfigurationError (generate_model example_externals example_dataset)"
  by (simp add: generate_model_example)

section \<open>The solve call\<close>

lemma emit_redirected:
  assumes "sys_stdout w = LogWriter DEBUG b1" and "sys_stderr w = LogWriter ERROR b2"
  shows "emit ev w = w\<lparr>log_records := log_records w @ [severity ev]\<rparr>"
  using assms by (cases ev; cases "fst ev") (auto simp: emit_def severity_def)

lemma fold_emit_redirected:
  assumes "sys_stdout w = LogWriter DEBUG b1" and "sys_stderr w = LogWriter ERROR b2"
  shows "fold emit outp w = w\<lparr>log_records := log_records w @ map severity outp\<rparr>"
  using assms
proof (induction outp arbitrary: w)
  case Nil
  then show ?case by simp
next
  case (Cons ev outp)
  have "fold emit (ev # outp) w = fold emit outp (w\<lparr>log_records := log_records w @ [severity ev]\<rparr>)"
    using Cons.prems by (simp add: emit_redirected)
  also have "\<dots> = w\<lparr>log_records := log_records w @ map severity (ev # outp)\<rparr>"
    using Cons.prems by (subst Cons.IH) simp_all
  finally show ?case .
qed

lemma with_block:
  "redirect_stdout (LogWriter DEBUG True)
     (redirect_stderr (LogWriter ERROR True)
        (\<lambda>w. opt_solve rs opt m kw (w\<lparr>gurobipy_level := Some ERROR\<rparr>))) w
   = (if ''tee'' \<in> fst ` set kw then (Inl (TypeError ''tee''), w\<lparr>gurobipy_level := Some ERROR\<rparr>)
      else (snd (rs opt m ((''tee'', PBool True) # kw)),
            w\<lparr>gurobipy_level := Some ERROR,
              solve_calls := solve_calls w @ [(opt, (''tee'', PBool True) # kw)],
              log_records := log_records w
                 @ map severity (fst (rs opt m ((''tee'', PBool True) # kw)))\<rparr>))"
proof (cases "''tee'' \<in> fst ` set kw")
  case True
  then show ?thesis
    by (simp add: redirect_stdout_def redirect_stderr_def opt_solve_def)
next
  case False
  obtain out r where rs: "rs opt m ((''tee'', PBool True) # kw) = (out, r)" by (cases "rs opt m ((''tee'', PBool True) # kw)")
  let ?w1 = "w\<lparr>sys_stdout := LogWriter DEBUG True, sys_stderr := LogWriter ERROR True,
               gurobipy_level := Some ERROR,
               solve_calls := solve_calls w @ [(opt, (''tee'', PBool True) # kw)]\<rparr>"
  have f: "fold emit out ?w1 = ?w1\<lparr>log_records := log_records ?w1 @ map severity out\<rparr>"
    by (rule fold_emit_redirected[where ?b1.0 = True and ?b2.0 = True]) simp_all
  show ?thesis using False rs f
    by (simp add: redirect_stdout_def redirect_stderr_def opt_solve_def Let_def)
qed

lemma keys_delete: "fst ` set (AList.delete k al) = fst ` set al - {k}"
  by (auto simp: AList.delete_eq)

lemma solve_model_shape:
  "\<exists>opt w2.
     solver_name opt = solver_arg
     \<and> sys_stdout w2 = sys_stdout w \<and> sys_stderr w2 = sys_stderr w
     \<and> process_stdout w2 = process_stdout w \<and> process_stderr w2 = process_stderr w
     \<and> log_records w2 = log_records w \<and> solve_calls w2 = solve_calls w
     \<and> warnings w2 = warnings w @
          (if ''warmstart'' \<in> fst ` set kw \<and> solver_arg \<in> set [''glpk'', ''cbc'']
           then [''The chosen solver, '' @ solver_arg
                   @ '', does not suport warmstart, which may impact performance.'']
           else [])
     \<and> solve_model rs makedirs m solver_arg io so save_logs kw w =
         (case (if (case save_logs of None \<Rightarrow> False | Some d \<Rightarrow> d \<noteq> [])
                then makedirs (the save_logs) else None) of
            Some e \<Rightarrow> (Inl e, w)
          | None \<Rightarrow>
              redirect_stdout (LogWriter DEBUG True)
                (redirect_stderr (LogWriter ERROR True)
                   (\<lambda>w. opt_solve rs opt m (final_kwargs solver_arg save_logs kw)
                          (w\<lparr>gurobipy_level := Some ERROR\<rparr>)))
                w2)"
proof -
  define logs where "logs = (case save_logs of None \<Rightarrow> False | Some d \<Rightarrow> d \<noteq> [])"
  define opt where "opt = (case so of
       None \<Rightarrow> \<lparr>solver_name = solver_arg, solver_io = io, options = []\<rparr>
     | Some os \<Rightarrow> \<lparr>solver_name = solver_arg, solver_io = io, options = []\<rparr>
                   \<lparr>options := fold (\<lambda>(k, v). AList.update k v) os []\<rparr>)"
  define k1 where "k1 = (if logs
                then AList.update ''keepfiles'' (PBool True)
                       (AList.update ''symbolic_solver_labels'' (PBool True) kw)
                else kw)"
  define w1 where "w1 = (if logs then w\<lparr>tempdir := save_logs\<rparr> else w)"
  define unsupported where
    "unsupported = (''warmstart'' \<in> fst ` set k1 \<and> solver_arg \<in> set [''glpk'', ''cbc''])"
  define w2 where "w2 = (if unsupported
                        then warn (''The chosen solver, '' @ solver_arg
                                     @ '', does not suport warmstart, which may impact performance.'') w1
                        else w1)"
  have ws: "''warmstart'' \<in> fst ` set k1 \<longleftrightarrow> ''warmstart'' \<in> fst ` set kw"
    by (simp add: k1_def dom_update)
  have o: "solver_name opt = solver_arg" by (simp add: opt_def split: option.splits)
  have w: "sys_stdout w2 = sys_stdout w" "sys_stderr w2 = sys_stderr w"
     "process_stdout w2 = process_stdout w" "process_stderr w2 = process_stderr w"
     "log_records w2 = log_records w" "solve_calls w2 = solve_calls w"
    by (simp_all add: w2_def w1_def warn_def)
  have wn: "warnings w2 = warnings w @
          (if ''warmstart'' \<in> fst ` set kw \<and> solver_arg \<in> set [''glpk'', ''cbc'']
           then [''The chosen solver, '' @ solver_arg
                   @ '', does not suport warmstart, which may impact performance.'']
           else [])"
    unfolding w2_def unsupported_def ws by (simp add: w1_def warn_def)
  have fk: "final_kwargs solver_arg save_logs kw = (if unsupported then AList.delete ''warmstart'' k1 else k1)"
    unfolding final_kwargs_def Let_def unsupported_def k1_def logs_def by (rule refl)
  have eq: "solve_model rs makedirs m solver_arg io so save_logs kw w =
         (case (if logs then makedirs (the save_logs) else None) of
            Some e \<Rightarrow> (Inl e, w)
          | None \<Rightarrow>
              redirect_stdout (LogWriter DEBUG True)
                (redirect_stderr (LogWriter ERROR True)
                   (\<lambda>w. opt_solve rs opt m (final_kwargs solver_arg save_logs kw)
                          (w\<lparr>gurobipy_level := Some ERROR\<rparr>)))
                w2)"
    unfolding fk unfolding solve_model_def Let_def w2_def unsupported_def w1_def k1_def opt_def logs_def
    by (rule refl)
  from o w wn eq show ?thesis unfolding logs_def by blast
qed


lemma with_block_effects:
  fixes rs :: "solver \<Rightarrow> 'm \<Rightarrow> (string \<times> pyval) list \<Rightarrow> (fd \<times> string) list \<times> (error + results)"
    and opt m kw and w :: world
  defines "r \<equiv> redirect_stdout (LogWriter DEBUG True)
     (redirect_stderr (LogWriter ERROR True)
        (\<lambda>w. opt_solve rs opt m kw (w\<lparr>gurobipy_level := Some ERROR\<rparr>))) w"
  shows "sys_stdout (snd r) = sys_stdout w" "sys_stderr (snd r) = sys_stderr w"
    "process_stdout (snd r) = process_stdout w" "process_stderr (snd r) = process_stderr w"
    "log_records (snd r) = log_records w
         @ concat (map (\<lambda>(opt, kwargs). map severity (fst (rs opt m kwargs)))
             (drop (length (solve_calls w)) (solve_calls (snd r))))"
    "warnings (snd r) = warnings w"
  unfolding r_def with_block by simp_all

text \<open>
  C4. When \<open>warmstart\<close> is among the solve arguments and the solver is \<open>glpk\<close> or \<open>cbc\<close>,
  the solve is still invoked, exactly once, by the solver asked for, with arguments that no
  longer have \<open>warmstart\<close> and still have every other argument of the caller; what
  \<open>solve_model\<close> returns is what that call returns, and one warning has been recorded. The
  call is reached when the creation of the log directory, if logs are saved, does not
  fail, and the caller does not pass \<open>tee\<close>, which \<open>solve_model\<close> passes itself.
\<close>

theorem solve_model_drops_warmstart:
  assumes ws: "''warmstart'' \<in> fst ` set kw"
    and sv: "solver_arg = ''glpk'' \<or> solver_arg = ''cbc''"
    and tee: "''tee'' \<notin> fst ` set kw"
    and dirs: "\<And>d. save_logs = Some d \<Longrightarrow> d \<noteq> [] \<Longrightarrow> makedirs d = None"
  shows "\<exists>opt kwargs.
           solve_calls (snd (solve_model rs makedirs m solver_arg io so save_logs kw w))
             = solve_calls w @ [(opt, kwargs)]
         \<and> solver_name opt = solver_arg
         \<and> ''warmstart'' \<notin> fst ` set kwargs
         \<and> fst ` set kw - {''warmstart''} \<subseteq> fst ` set kwargs
         \<and> fst (solve_model rs makedirs m solver_arg io so save_logs kw w) = snd (rs opt m kwargs)
         \<and> warnings (snd (solve_model rs makedirs m solver_arg io so save_logs kw w))
             = warnings w @ [''The chosen solver, '' @ solver_arg
                   @ '', does not suport warmstart, which may impact performance.'']"
proof -
  obtain opt w2 where o: "solver_name opt = solver_arg"
    and w2: "solve_calls w2 = solve_calls w"
    and wn: "warnings w2 = warnings w @
          (if ''warmstart'' \<in> fst ` set kw \<and> solver_arg \<in> set [''glpk'', ''cbc'']
           then [''The chosen solver, '' @ solver_arg
                   @ '', does not suport warmstart, which may impact performance.'']
           else [])"
    and eq: "solve_model rs makedirs m solver_arg io so save_logs kw w =
         (case (if (case save_logs of None \<Rightarrow> False | Some d \<Rightarrow> d \<noteq> [])
                then makedirs (the save_logs) else None) of
            Some e \<Rightarrow> (Inl e, w)
          | None \<Rightarrow>
              redirect_stdout (LogWriter DEBUG True)
                (redirect_stderr (LogWriter ERROR True)
                   (\<lambda>w. opt_solve rs opt m (final_kwargs solver_arg save_logs kw)
                          (w\<lparr>gurobipy_level := Some ERROR\<rparr>)))
                w2)"
    using solve_model_shape[of solver_arg w kw rs makedirs m io so save_logs] by blast
  let ?kw = "final_kwargs solver_arg save_logs kw"
  have nodirs: "(if (case save_logs of None \<Rightarrow> False | Some d \<Rightarrow> d \<noteq> [])
                then makedirs (the save_logs) else None) = None"
    using dirs by (auto split: option.splits)
  have k: "''warmstart'' \<notin> fst ` set ?kw" "fst ` set kw - {''warmstart''} \<subseteq> fst ` set ?kw"
    "''tee'' \<notin> fst ` set ?kw"
    using ws sv tee by (auto simp: final_kwargs_def Let_def dom_update keys_delete)
  have eq': "solve_model rs makedirs m solver_arg io so save_logs kw w =
      (snd (rs opt m ((''tee'', PBool True) # ?kw)),
            w2\<lparr>gurobipy_level := Some ERROR,
              solve_calls := solve_calls w2 @ [(opt, (''tee'', PBool True) # ?kw)],
              log_records := log_records w2
                 @ map severity (fst (rs opt m ((''tee'', PBool True) # ?kw)))\<rparr>)"
    unfolding eq nodirs with_block using k(3) by simp
  have "solve_calls (snd (solve_model rs makedirs m solver_arg io so save_logs kw w))
             = solve_calls w @ [(opt, (''tee'', PBool True) # ?kw)]"
    unfolding eq' using w2 by simp
  moreover have "''warmstart'' \<notin> fst ` set ((''tee'', PBool True) # ?kw)" using k(1) by simp
  moreover have "fst ` set kw - {''warmstart''} \<subseteq> fst ` set ((''tee'', PBool True) # ?kw)"
    using k(2) by auto
  moreover have "fst (solve_model rs makedirs m solver_arg io so save_logs kw w)
       = snd (rs opt m ((''tee'', PBool True) # ?kw))"
    unfolding eq' by simp
  moreover have "warnings (snd (solve_model rs makedirs m solver_arg io so save_logs kw w))
             = warnings w @ [''The chosen solver, '' @ solver_arg
                   @ '', does not suport warmstart, which may impact performance.'']"
    unfolding eq' using wn ws sv by auto
  ultimately show ?thesis using o by blast
qed

theorem solve_model_drops_warmstart_witness:
  "solve_calls (snd (solve_model
       (\<lambda>opt m kwargs. ([(Stdout, ''GLPSOL''), (Stderr, ''no basis'')],
            Inr \<lparr>termination_condition = ''optimal'', problem_text = [], solver_text = []\<rparr>))
       (\<lambda>d. None) (0::nat) ''glpk'' None None None
       [(''warmstart'', PBool True), (''report_timing'', PBool False)] example_world))
     = [(\<lparr>solver_name = ''glpk'', solver_io = None, options = []\<rparr>,
         [(''tee'', PBool True), (''report_timing'', PBool False)])]
   \<and> warnings (snd (solve_model
       (\<lambda>opt m kwargs. ([(Stdout, ''GLPSOL''), (Stderr, ''no basis'')],
            Inr \<lparr>termination_condition = ''optimal'', problem_text = [], solver_text = []\<rparr>))
       (\<lambda>d. None) (0::nat) ''glpk'' None None None
       [(''warmstart'', PBool True), (''report_timing'', PBool False)] example_world))
     = [''The chosen solver, glpk, does not suport warmstart, which may impact performance.'']"
proof -
  let ?kw = "[(''warmstart'', PBool True), (''report_timing'', PBool False)]"
  have 1: "''warmstart'' \<in> fst ` set ?kw" by simp
  have 2: "''glpk'' = ''glpk'' \<or> ''glpk'' = ''cbc''" by simp
  have 3: "''tee'' \<notin> fst ` set ?kw" by simp
  have 4: "\<And>d. (None :: string option) = Some d \<Longrightarrow> d \<noteq> [] \<Longrightarrow> (\<lambda>d. None :: error option) d = None"
    by simp
  have we: "warnings example_world = []" by (simp add: example_world_def)
  note inst = solve_model_drops_warmstart[where save_logs = None and makedirs = "\<lambda>d. None", OF 1 2 3 4]
  have w: "warnings (snd (solve_model
       (\<lambda>opt m kwargs. ([(Stdout, ''GLPSOL''), (Stderr, ''no basis'')],
            Inr \<lparr>termination_condition = ''optimal'', problem_text = [], solver_text = []\<rparr>))
       (\<lambda>d. None) (0::nat) ''glpk'' None None None ?kw example_world))
     = [''The chosen solver, glpk, does not suport warmstart, which may impact performance.'']"
    using inst[where rs = "\<lambda>opt m kwargs. ([(Stdout, ''GLPSOL''), (Stderr, ''no basis'')],
            Inr \<lparr>termination_condition = ''optimal'', problem_text = [], solver_text = []\<rparr>)"
         and m = "0::nat" and io = None and so = None and w = example_world] we
    by auto
  have c: "solve_calls (snd (solve_model
       (\<lambda>opt m kwargs. ([(Stdout, ''GLPSOL''), (Stderr, ''no basis'')],
            Inr \<lparr>termination_condition = ''optimal'', problem_text = [], solver_text = []\<rparr>))
       (\<lambda>d. None) (0::nat) ''glpk'' None None None ?kw example_world))
     = [(\<lparr>solver_name = ''glpk'', solver_io = None, options = []\<rparr>,
         [(''tee'', PBool True), (''report_timing'', PBool False)])]"
    by (simp add: solve_model_def with_block example_world_def warn_def Let_def)
  from c w show ?thesis by simp
qed

lemma solve_model_frame:
  "sys_stdout (snd (solve_model rs makedirs m solver_arg io so save_logs kw w)) = sys_stdout w
   \<and> sys_stderr (snd (solve_model rs makedirs m solver_arg io so save_logs kw w)) = sys_stderr w
   \<and> process_stdout (snd (solve_model rs makedirs m solver_arg io so save_logs kw w)) = process_stdout w
   \<and> process_stderr (snd (solve_model rs makedirs m solver_arg io so save_logs kw w)) = process_stderr w
   \<and> log_records (snd (solve_model rs makedirs m solver_arg io so save_logs kw w))
       = log_records w
         @ concat (map (\<lambda>(opt, kwargs). map severity (fst (rs opt m kwargs)))
             (drop (length (solve_calls w))
                (solve_calls (snd (solve_model rs makedirs m solver_arg io so save_logs kw w)))))"
proof -
  obtain opt w2 where w2: "sys_stdout w2 = sys_stdout w" "sys_stderr w2 = sys_stderr w"
     "process_stdout w2 = process_stdout w" "process_stderr w2 = process_stderr w"
     "log_records w2 = log_records w" "solve_calls w2 = solve_calls w"
    and eq: "solve_model rs makedirs m solver_arg io so save_logs kw w =
         (case (if (case save_logs of None \<Rightarrow> False | Some d \<Rightarrow> d \<noteq> [])
                then makedirs (the save_logs) else None) of
            Some e \<Rightarrow> (Inl e, w)
          | None \<Rightarrow>
              redirect_stdout (LogWriter DEBUG True)
                (redirect_stderr (LogWriter ERROR True)
                   (\<lambda>w. opt_solve rs opt m (final_kwargs solver_arg save_logs kw)
                          (w\<lparr>gurobipy_level := Some ERROR\<rparr>)))
                w2)"
    using solve_model_shape[of solver_arg w kw rs makedirs m io so save_logs] by blast
  show ?thesis
  proof (cases "if (case save_logs of None \<Rightarrow> False | Some d \<Rightarrow> d \<noteq> [])
                then makedirs (the save_logs) else None")
    case (Some e)
    then show ?thesis unfolding eq by simp
  next
    case None
    have eq': "solve_model rs makedirs m solver_arg io so save_logs kw w =
        redirect_stdout (LogWriter DEBUG True)
                (redirect_stderr (LogWriter ERROR True)
                   (\<lambda>w. opt_solve rs opt m (final_kwargs solver_arg save_logs kw)
                          (w\<lparr>gurobipy_level := Some ERROR\<rparr>)))
                w2"
      unfolding eq None by simp
    show ?thesis
      unfolding eq'
      using with_block_effects[of rs opt m "final_kwargs solver_arg save_logs kw" w2] w2
      by simp
  qed
qed


lemma fold_emit_unredirected:
  assumes "sys_stdout w = ProcessStdout" and "sys_stderr w = ProcessStderr"
  shows "process_stdout (fold emit outp w)
           = process_stdout w @ map snd (filter (\<lambda>ev. fst ev = Stdout) outp)
         \<and> process_stderr (fold emit outp w)
           = process_stderr w @ map snd (filter (\<lambda>ev. fst ev = Stderr) outp)
         \<and> log_records (fold emit outp w) = log_records w"
  using assms
proof (induction outp arbitrary: w)
  case Nil
  then show ?case by simp
next
  case (Cons ev outp)
  obtain f s where ev: "ev = (f, s)" by (cases ev)
  have st: "sys_stdout (emit ev w) = ProcessStdout" "sys_stderr (emit ev w) = ProcessStderr"
    using Cons.prems ev by (cases f; simp add: emit_def)+
  from Cons.IH[OF st] Cons.prems ev show ?case
    by (cases f) (simp_all add: emit_def)
qed

text \<open>
  Without the redirection the solver's output reaches the process's own streams: a call of
  \<open>opt.solve\<close> under the process's streams writes every line there and logs nothing.
\<close>

lemma opt_solve_unredirected:
  assumes "sys_stdout w = ProcessStdout" and "sys_stderr w = ProcessStderr"
    and "''tee'' \<notin> fst ` set kw"
  shows "process_stdout (snd (opt_solve rs opt m kw w))
           = process_stdout w
             @ map snd (filter (\<lambda>ev. fst ev = Stdout) (fst (rs opt m ((''tee'', PBool True) # kw))))
         \<and> log_records (snd (opt_solve rs opt m kw w)) = log_records w"
proof -
  obtain outp r where rs: "rs opt m ((''tee'', PBool True) # kw) = (outp, r)"
    by (cases "rs opt m ((''tee'', PBool True) # kw)")
  let ?w1 = "w\<lparr>solve_calls := solve_calls w @ [(opt, (''tee'', PBool True) # kw)]\<rparr>"
  have "sys_stdout ?w1 = ProcessStdout" "sys_stderr ?w1 = ProcessStderr"
    using assms by simp_all
  from fold_emit_unredirected[OF this, of outp] assms(3) rs show ?thesis
    by (simp add: opt_solve_def Let_def)
qed

text \<open>
  C9. For every call of \<open>solve_model\<close>, whatever it returns or raises: afterwards
  \<open>sys.stdout\<close> and \<open>sys.stderr\<close> are the streams they were before the call, and nothing
  has been written to the process's own standard output or standard error. When the solver
  is reached (the creation of the log directory, if logs are saved, does not fail, and the
  caller passes no \<open>tee\<close>), it is called once, \<open>solve_model\<close> returns or raises what that
  call returns or raises, and every line the solver printed has become a log record, in
  order: a line of its standard output at debug severity, a line of its standard error at
  error severity.
\<close>

theorem solve_model_redirects_and_restores:
  "sys_stdout (snd (solve_model rs makedirs m solver_arg io so save_logs kw w)) = sys_stdout w
   \<and> sys_stderr (snd (solve_model rs makedirs m solver_arg io so save_logs kw w)) = sys_stderr w
   \<and> process_stdout (snd (solve_model rs makedirs m solver_arg io so save_logs kw w)) = process_stdout w
   \<and> process_stderr (snd (solve_model rs makedirs m solver_arg io so save_logs kw w)) = process_stderr w
   \<and> (''tee'' \<notin> fst ` set kw \<longrightarrow>
      (\<forall>d. save_logs = Some d \<longrightarrow> d \<noteq> [] \<longrightarrow> makedirs d = None) \<longrightarrow>
      (\<exists>opt. solver_name opt = solver_arg
         \<and> solve_calls (snd (solve_model rs makedirs m solver_arg io so save_logs kw w))
             = solve_calls w @ [(opt, (''tee'', PBool True) # final_kwargs solver_arg save_logs kw)]
         \<and> fst (solve_model rs makedirs m solver_arg io so save_logs kw w)
             = snd (rs opt m ((''tee'', PBool True) # final_kwargs solver_arg save_logs kw))
         \<and> log_records (snd (solve_model rs makedirs m solver_arg io so save_logs kw w))
             = log_records w
               @ map severity
                   (fst (rs opt m ((''tee'', PBool True) # final_kwargs solver_arg save_logs kw)))))"
proof -
  have reach: "\<exists>opt. solver_name opt = solver_arg
         \<and> solve_calls (snd (solve_model rs makedirs m solver_arg io so save_logs kw w))
             = solve_calls w @ [(opt, (''tee'', PBool True) # final_kwargs solver_arg save_logs kw)]
         \<and> fst (solve_model rs makedirs m solver_arg io so save_logs kw w)
             = snd (rs opt m ((''tee'', PBool True) # final_kwargs solver_arg save_logs kw))
         \<and> log_records (snd (solve_model rs makedirs m solver_arg io so save_logs kw w))
             = log_records w
               @ map severity
                   (fst (rs opt m ((''tee'', PBool True) # final_kwargs solver_arg save_logs kw)))"
    if tee: "''tee'' \<notin> fst ` set kw"
      and dirs: "\<forall>d. save_logs = Some d \<longrightarrow> d \<noteq> [] \<longrightarrow> makedirs d = None"
  proof -
    obtain opt w2 where o: "solver_name opt = solver_arg"
      and w2: "solve_calls w2 = solve_calls w" "log_records w2 = log_records w"
      and eq: "solve_model rs makedirs m solver_arg io so save_logs kw w =
         (case (if (case save_logs of None \<Rightarrow> False | Some d \<Rightarrow> d \<noteq> [])
                then makedirs (the save_logs) else None) of
            Some e \<Rightarrow> (Inl e, w)
          | None \<Rightarrow>
              redirect_stdout (LogWriter DEBUG True)
                (redirect_stderr (LogWriter ERROR True)
                   (\<lambda>w. opt_solve rs opt m (final_kwargs solver_arg save_logs kw)
                          (w\<lparr>gurobipy_level := Some ERROR\<rparr>)))
                w2)"
      using solve_model_shape[of solver_arg w kw rs makedirs m io so save_logs] by blast
    let ?kw = "final_kwargs solver_arg save_logs kw"
    have nodirs: "(if (case save_logs of None \<Rightarrow> False | Some d \<Rightarrow> d \<noteq> [])
                then makedirs (the save_logs) else None) = None"
      using dirs by (auto split: option.splits)
    have k: "''tee'' \<notin> fst ` set ?kw"
      using tee by (auto simp: final_kwargs_def Let_def dom_update keys_delete)
    have eq': "solve_model rs makedirs m solver_arg io so save_logs kw w =
      (snd (rs opt m ((''tee'', PBool True) # ?kw)),
            w2\<lparr>gurobipy_level := Some ERROR,
              solve_calls := solve_calls w2 @ [(opt, (''tee'', PBool True) # ?kw)],
              log_records := log_records w2
                 @ map severity (fst (rs opt m ((''tee'', PBool True) # ?kw)))\<rparr>)"
      unfolding eq nodirs with_block using k by simp
    show ?thesis
      unfolding eq' using o w2 by simp
  qed
  from solve_model_frame[of rs makedirs m solver_arg io so save_logs kw w] reach
  show ?thesis by blast
qed

theorem solve_model_redirects_and_restores_witness:
  "solve_model
     (\<lambda>opt m kwargs. ([(Stdout, ''GLPSOL''), (Stderr, ''no basis''), (Stdout, ''done'')],
          Inl (SolverError ''aborted'')))
     (\<lambda>d. None) (0::nat) ''cbc'' None None None [] example_world
   = (Inl (SolverError ''aborted''),
      example_world
        \<lparr>gurobipy_level := Some ERROR,
         solve_calls := [(\<lparr>solver_name = ''cbc'', solver_io = None, options = []\<rparr>,
                          [(''tee'', PBool True)])],
         log_records := [(DEBUG, ''GLPSOL''), (ERROR, ''no basis''), (DEBUG, ''done'')]\<rparr>)
   \<and> sys_stdout example_world = ProcessStdout
   \<and> sys_stderr example_world = ProcessStderr
   \<and> process_stdout (snd (opt_solve
        (\<lambda>opt m kwargs. ([(Stdout, ''GLPSOL''), (Stderr, ''no basis''), (Stdout, ''done'')],
             Inl (SolverError ''aborted'')))
        \<lparr>solver_name = ''cbc'', solver_io = None, options = []\<rparr> (0::nat) [] example_world))
     = [''GLPSOL'', ''done'']"
proof -
  have run: "solve_model
     (\<lambda>opt m kwargs. ([(Stdout, ''GLPSOL''), (Stderr, ''no basis''), (Stdout, ''done'')],
          Inl (SolverError ''aborted'')))
     (\<lambda>d. None) (0::nat) ''cbc'' None None None [] example_world
   = (Inl (SolverError ''aborted''),
      example_world
        \<lparr>gurobipy_level := Some ERROR,
         solve_calls := [(\<lparr>solver_name = ''cbc'', solver_io = None, options = []\<rparr>,
                          [(''tee'', PBool True)])],
         log_records := [(DEBUG, ''GLPSOL''), (ERROR, ''no basis''), (DEBUG, ''done'')]\<rparr>)"
    by (simp add: solve_model_def with_block example_world_def severity_def Let_def)
  have plain: "process_stdout (snd (opt_solve
        (\<lambda>opt m kwargs. ([(Stdout, ''GLPSOL''), (Stderr, ''no basis''), (Stdout, ''done'')],
             Inl (SolverError ''aborted'')))
        \<lparr>solver_name = ''cbc'', solver_io = None, options = []\<rparr> (0::nat) [] example_world))
     = [''GLPSOL'', ''done'']"
    by (simp add: opt_solve_def emit_def example_world_def Let_def)
  show ?thesis
    using solve_model_redirects_and_restores
      [where rs = "\<lambda>opt m kwargs. ([(Stdout, ''GLPSOL''), (Stderr, ''no basis''), (Stdout, ''done'')],
          Inl (SolverError ''aborted''))"
        and makedirs = "\<lambda>d. None" and m = "0::nat" and solver_arg = "''cbc''" and io = None
        and so = None and save_logs = None and kw = "[]" and w = example_world]
    by (simp (no_asm) add: run plain) (simp add: example_world_def)
qed

section \<open>Loading the results\<close>

lemma fold_critical_warnings: "warnings (fold critical ls w) = warnings w"
  by (induction ls arbitrary: w) (simp_all add: critical_def)

lemma fold_critical_log: "log_records (fold critical ls w) = log_records w @ map (Pair CRITICAL) ls"
  by (induction ls arbitrary: w) (simp_all add: critical_def)

lemma load_results_no_warning:
  "warnings (snd (snd (load_results lf m res w))) = warnings w"
  by (simp add: load_results_def Let_def fold_critical_warnings critical_def
      split: prod.splits sum.splits)

text \<open>
  C3, at a result whose termination condition is \<open>infeasible\<close>: \<open>load_results\<close> returns the
  string \<open>infeasible\<close>, raises nothing, and logs the problem and solver status line by line
  at critical severity; but no warning is recorded: the warning instance is built and
  dropped.
\<close>

theorem load_results_infeasible_records_no_warning:
  "load_results (\<lambda>m r. (Inr PNone, m)) (0::nat)
     \<lparr>termination_condition = ''infeasible'',
      problem_text = ''Name: unknown'' @ [CHR 0x0A] @ ''Number of constraints: 3'',
      solver_text = ''Status: warning''\<rparr> example_world
   = (Inr ''infeasible'', 0,
      example_world\<lparr>log_records :=
        [(CRITICAL, ''Problem status:''), (CRITICAL, ''Name: unknown''),
         (CRITICAL, ''Number of constraints: 3''),
         (CRITICAL, ''Solver status:''), (CRITICAL, ''Status: warning'')]\<rparr>)
   \<and> warnings example_world = []
   \<and> warnings (snd (snd (load_results (\<lambda>m r. (Inr PNone, m)) (0::nat)
        \<lparr>termination_condition = ''infeasible'',
         problem_text = ''Name: unknown'' @ [CHR 0x0A] @ ''Number of constraints: 3'',
         solver_text = ''Status: warning''\<rparr> example_world))) = []"
  by (simp add: load_results_def Let_def critical_def example_world_def)

section \<open>Parameters\<close>

lemma map_of_fold_update:
  "map_of (fold (\<lambda>(k, v). AList.update k v) s acc) = map_of acc ++ map_of (rev s)"
proof (induction s arbitrary: acc)
  case Nil
  then show ?case by simp
next
  case (Cons a s)
  obtain k v where a: "a = (k, v)" by (cases a)
  have "map_of (fold (\<lambda>(k, v). AList.update k v) (a # s) acc)
          = map_of (AList.update k v acc) ++ map_of (rev s)"
    using Cons.IH[of "AList.update k v acc"] a by simp
  also have "\<dots> = map_of acc ++ map_of (rev (a # s))"
    by (simp add: a update_conv' map_add_upd_left fun_eq_iff map_add_def split: option.splits)
  finally show ?case .
qed

lemma set_update_subset: "set (AList.update k v al) \<subseteq> insert (k, v) (set al)"
  by (induction al) auto

lemma set_fold_update:
  "set (fold (\<lambda>(k, v). AList.update k v) s acc) \<subseteq> set s \<union> set acc"
proof (induction s arbitrary: acc)
  case Nil
  then show ?case by simp
next
  case (Cons a s)
  obtain k v where a: "a = (k, v)" by (cases a)
  have "set (fold (\<lambda>(k, v). AList.update k v) (a # s) acc)
          \<subseteq> set s \<union> set (AList.update k v acc)"
    using Cons.IH[of "AList.update k v acc"] a by simp
  with set_update_subset[of k v acc] a show ?case by auto
qed

lemma to_dict_lookup: "map_of (to_dict s) t = map_of (rev s) t"
  by (simp add: to_dict_def map_of_fold_update)

lemma to_dict_subset: "set (to_dict s) \<subseteq> set s"
  using set_fold_update[of s "[]"] by (simp add: to_dict_def)

lemma to_dict_absent: "t \<notin> fst ` set s \<Longrightarrow> map_of (to_dict s) t = None"
  by (simp add: to_dict_lookup map_of_eq_None_iff)

lemma dropna_nonnull: "(t, x) \<in> set (dropna b s) \<Longrightarrow> \<not> isnull b x \<and> (t, x) \<in> set s"
  by (auto simp: dropna_def)

lemma isnull_inf_as_missing: "isnull True (inf_as_missing x) = isnull True x"
  by (cases "(True, x)" rule: isnull.cases) auto

lemma nonnull_inf_as_missing: "\<not> isnull True x \<Longrightarrow> inf_as_missing x = x"
  by (cases "(True, x)" rule: isnull.cases) auto

lemma dropna_inf_as_missing:
  "dropna True (map (\<lambda>(t, x). (t, inf_as_missing x)) s) = dropna True s"
  by (induction s) (auto simp: dropna_def isnull_inf_as_missing nonnull_inf_as_missing)

lemma build_param_shape:
  assumes "is_param run_config v = Inr True" and "getattrs m (dv_dims v) = Inr ds"
  shows "build_param gd defaults run_config m k v =
           Inr (setattr m (if hasattr m k then ''calliope_'' @ k else k)
                  (ParamC ds (to_dict (dropna True (dv_series v)))
                     (case map_of defaults k of None \<Rightarrow> None
                      | Some d \<Rightarrow> if isnull False d then None else Some d)
                     True (gd v)))"
  using assms by (simp add: build_param_def Let_def)

lemma example_var_is_param: "is_param [] example_var = Inr True"
  by (simp add: is_param_def example_var_def)

lemma example_var_dims: "getattrs example_model (dv_dims example_var) = Inr [''techs'']"
  by (simp add: getattrs_def example_var_def example_model_def hasattr_def getattr_def)

text \<open>
  C6, as the code has it. The collision is tested on the name \<open>k\<close> only, not on the new
  name. When \<open>build_params\<close> declares the data variable \<open>k\<close> as a parameter (the variable
  passes the loop's condition and its dimensions are attributes of the model) and \<open>k\<close> is
  already an attribute of the model, the step does not fail: the parameter is declared
  under the name \<open>calliope_\<close> followed by \<open>k\<close>, the attribute \<open>k\<close> is what it was, and so is
  every attribute other than the one of the new name.
\<close>

theorem build_param_collision_renamed:
  assumes "hasattr m k" and "is_param run_config v = Inr True"
    and "getattrs m (dv_dims v) = Inr ds"
  shows "\<exists>p. build_param gd defaults run_config m k v = Inr (setattr m (''calliope_'' @ k) p)
           \<and> is_Param p
           \<and> getattr (setattr m (''calliope_'' @ k) p) (''calliope_'' @ k) = Some p
           \<and> getattr (setattr m (''calliope_'' @ k) p) k = getattr m k
           \<and> (\<forall>n. n \<noteq> ''calliope_'' @ k
                  \<longrightarrow> getattr (setattr m (''calliope_'' @ k) p) n = getattr m n)"
  using assms build_param_shape[OF assms(2,3), where gd = gd and defaults = defaults and k = k]
  by (auto simp: getattr_setattr)

theorem build_param_collision_renamed_witness:
  "build_param (\<lambda>v. ''Reals'') [] [] example_model ''name'' example_var
     = Inr (example_model @
         [(''calliope_name'',
           ParamC [''techs''] [([''A''], PFloat (Fin 5))] None True ''Reals'')])
   \<and> getattr (example_model @
         [(''calliope_name'',
           ParamC [''techs''] [([''A''], PFloat (Fin 5))] None True ''Reals'')]) ''name''
       = Some Builtin"
proof -
  have h: "hasattr example_model ''name''"
    by (simp add: hasattr_def getattr_def example_model_def)
  from build_param_collision_renamed[OF h example_var_is_param example_var_dims,
      where gd = "\<lambda>v. ''Reals''" and defaults = "[]"]
  obtain p where
    "build_param (\<lambda>v. ''Reals'') [] [] example_model ''name'' example_var
       = Inr (setattr example_model (''calliope_'' @ ''name'') p)" by blast
  moreover have "build_param (\<lambda>v. ''Reals'') [] [] example_model ''name'' example_var
     = Inr (example_model @
         [(''calliope_name'',
           ParamC [''techs''] [([''A''], PFloat (Fin 5))] None True ''Reals'')])"
    by (simp add: build_param_shape[OF example_var_is_param example_var_dims] h)
       (simp add: example_model_def example_var_def setattr_def to_dict_def dropna_def)
  ultimately show ?thesis
    by (simp add: example_model_def getattr_def)
qed

text \<open>
  The claim as written has the collision never overwrite anything. With the data variables
  \<open>calliope_name\<close> and \<open>name\<close>, in this order, on a model that has an attribute \<open>name\<close> of
  its own: the first is declared as the parameter \<open>calliope_name\<close>; the second collides
  with \<open>name\<close>, is renamed \<open>calliope_name\<close>, and replaces the parameter of the first.
\<close>

theorem build_param_collision_overwrites_renamed:
  "build_param (\<lambda>v. ''Reals'') [] [] example_model ''calliope_name'' example_var
     = Inr (example_model @
         [(''calliope_name'',
           ParamC [''techs''] [([''A''], PFloat (Fin 5))] None True ''Reals'')])
   \<and> build_param (\<lambda>v. ''Reals'') [] []
       (example_model @
         [(''calliope_name'',
           ParamC [''techs''] [([''A''], PFloat (Fin 5))] None True ''Reals'')])
       ''name'' (example_var\<lparr>dv_series := [([''A''], PFloat (Fin 9))]\<rparr>)
     = Inr (example_model @
         [(''calliope_name'',
           ParamC [''techs''] [([''A''], PFloat (Fin 9))] None True ''Reals'')])
   \<and> build_param_loop (\<lambda>v. ''Reals'') [] [] example_model
       [(''calliope_name'', example_var),
        (''name'', example_var\<lparr>dv_series := [([''A''], PFloat (Fin 9))]\<rparr>)]
     = Inr (example_model @
         [(''calliope_name'',
           ParamC [''techs''] [([''A''], PFloat (Fin 9))] None True ''Reals'')])"
  by (simp add: build_param_def is_param_def getattrs_def hasattr_def getattr_def setattr_def
      to_dict_def dropna_def example_model_def example_var_def Let_def)

text \<open>
  C10. The parameter \<open>build_params\<close> declares for a data variable is initialised with the
  variable's entries under the pandas option that counts the infinities as missing: the
  initialisation data is what it would be with every infinite value replaced by the
  missing value, and holds no infinite value. At an index all of whose entries are infinite
  or missing the initialisation data has nothing, and reading the parameter there gives the
  default supplied for the variable's name in \<open>defaults\<close> (an error when there is none).
\<close>

theorem build_param_drops_infinite:
  assumes "is_param run_config v = Inr True" and "getattrs m (dv_dims v) = Inr ds"
  shows "\<exists>initialize default_value.
           build_param gd defaults run_config m k v =
             Inr (setattr m (if hasattr m k then ''calliope_'' @ k else k)
                    (ParamC ds initialize default_value True (gd v)))
         \<and> default_value = (case map_of defaults k of None \<Rightarrow> None
                            | Some d \<Rightarrow> if isnull False d then None else Some d)
         \<and> initialize = to_dict (dropna True (map (\<lambda>(t, x). (t, inf_as_missing x)) (dv_series v)))
         \<and> (\<forall>t x. (t, x) \<in> set initialize \<longrightarrow> x \<noteq> PFloat PosInf \<and> x \<noteq> PFloat NegInf)
         \<and> (\<forall>t. (\<forall>x. (t, x) \<in> set (dv_series v)
                      \<longrightarrow> x = PFloat PosInf \<or> x = PFloat NegInf \<or> x = PFloat NaN \<or> x = PNone)
                \<longrightarrow> map_of initialize t = None
                  \<and> param_value (ParamC ds initialize default_value True (gd v)) t
                      = (case default_value of Some d \<Rightarrow> Inr d | None \<Rightarrow> Inl (KeyError (concat t))))"
proof -
  let ?init = "to_dict (dropna True (dv_series v))"
  have a: "\<forall>t x. (t, x) \<in> set ?init \<longrightarrow> x \<noteq> PFloat PosInf \<and> x \<noteq> PFloat NegInf"
  proof (intro allI impI)
    fix t x assume "(t, x) \<in> set ?init"
    with to_dict_subset have "(t, x) \<in> set (dropna True (dv_series v))" by blast
    then have "\<not> isnull True x" by (simp add: dropna_nonnull)
    then show "x \<noteq> PFloat PosInf \<and> x \<noteq> PFloat NegInf" by auto
  qed
  have b: "\<forall>t. (\<forall>x. (t, x) \<in> set (dv_series v)
                      \<longrightarrow> x = PFloat PosInf \<or> x = PFloat NegInf \<or> x = PFloat NaN \<or> x = PNone)
                \<longrightarrow> map_of ?init t = None"
  proof (intro allI impI)
    fix t
    assume h: "\<forall>x. (t, x) \<in> set (dv_series v)
                      \<longrightarrow> x = PFloat PosInf \<or> x = PFloat NegInf \<or> x = PFloat NaN \<or> x = PNone"
    have "t \<notin> fst ` set (dropna True (dv_series v))"
    proof
      assume "t \<in> fst ` set (dropna True (dv_series v))"
      then obtain x where "(t, x) \<in> set (dropna True (dv_series v))" by auto
      then have "\<not> isnull True x" "(t, x) \<in> set (dv_series v)" by (simp_all add: dropna_nonnull)
      with h show False by auto
    qed
    then show "map_of ?init t = None" by (rule to_dict_absent)
  qed
  show ?thesis
    using build_param_shape[OF assms, where gd = gd and defaults = defaults and k = k] a b
    by (simp add: dropna_inf_as_missing param_value_def)
qed


theorem build_param_drops_infinite_witness:
  "(case build_param (\<lambda>v. ''Reals'') [(''energy_cap_max'', PFloat (Fin 0))] [] example_model
           ''energy_cap_max'' example_var of
      Inr m \<Rightarrow>
        (case getattr m ''energy_cap_max'' of
           Some p \<Rightarrow> param_value p [''A''] = Inr (PFloat (Fin 5))
                     \<and> param_value p [''B''] = Inr (PFloat (Fin 0))
         | None \<Rightarrow> False)
    | Inl e \<Rightarrow> False)"
proof -
  have nohas: "\<not> hasattr example_model ''energy_cap_max''"
    by (simp add: hasattr_def getattr_def example_model_def)
  have run: "build_param (\<lambda>v. ''Reals'') [(''energy_cap_max'', PFloat (Fin 0))] [] example_model
        ''energy_cap_max'' example_var =
       Inr (setattr example_model ''energy_cap_max''
              (ParamC [''techs''] [([''A''], PFloat (Fin 5))] (Some (PFloat (Fin 0))) True ''Reals''))"
    by (simp add: build_param_shape[OF example_var_is_param example_var_dims] nohas)
       (simp add: example_var_def to_dict_def dropna_def)
  show ?thesis
    using build_param_drops_infinite[OF example_var_is_param example_var_dims,
      where gd = "\<lambda>v. ''Reals''" and defaults = "[(''energy_cap_max'', PFloat (Fin 0))]"
        and k = "''energy_cap_max''"]
    by (simp (no_asm) add: run getattr_setattr param_value_def)
qed

lemma build_param_keeps_costs:
  assumes "build_param gd defaults run_config m k v = Inr m'"
    and "getattr m ''costs'' = Some c"
  shows "getattr m' ''costs'' = Some c"
proof -
  have h: "hasattr m ''costs''" using assms(2) by (simp add: hasattr_def)
  show ?thesis
    using assms h
    by (auto simp: build_param_def Let_def getattr_setattr
        split: sum.splits bool.splits if_splits)
qed

lemma build_param_loop_keeps_costs:
  assumes "build_param_loop gd defaults run_config m vs = Inr m'"
    and "getattr m ''costs'' = Some c"
  shows "getattr m' ''costs'' = Some c"
  using assms
proof (induction vs arbitrary: m)
  case Nil
  then show ?case by simp
next
  case (Cons a vs)
  obtain k v where a: "a = (k, v)" by (cases a)
  from Cons.prems(1) a obtain m1 where
    m1: "build_param gd defaults run_config m k v = Inr m1"
    and rest: "build_param_loop gd defaults run_config m1 vs = Inr m'"
    by (auto split: sum.splits)
  from build_param_keeps_costs[OF m1 Cons.prems(2)] Cons.IH[OF rest] show ?case by simp
qed

lemma build_objective_option_keeps_costs:
  assumes "build_objective_option m n val = Inr m'" and "getattr m ''costs'' = Some c"
  shows "getattr m' ''costs'' = Some c"
  using assms
  by (auto simp: build_objective_option_def Let_def getattr_setattr
      split: if_splits pyval.splits option.splits component.splits)

lemma build_objective_option_other:
  assumes "build_objective_option m n val = Inr m'" and "n \<noteq> ''cost_class''"
  shows "getattr m' ''objective_cost_class'' = getattr m ''objective_cost_class''"
  using assms
  by (auto simp: build_objective_option_def getattr_setattr)

lemma build_objective_option_loop_other:
  assumes "build_objective_option_loop m opts = Inr m'" and "''cost_class'' \<notin> fst ` set opts"
  shows "getattr m' ''objective_cost_class'' = getattr m ''objective_cost_class''"
  using assms
proof (induction opts arbitrary: m)
  case Nil
  then show ?case by simp
next
  case (Cons a opts)
  obtain n val where a: "a = (n, val)" by (cases a)
  from Cons.prems(1) a obtain m1 where
    m1: "build_objective_option m n val = Inr m1"
    and rest: "build_objective_option_loop m1 opts = Inr m'"
    by (auto split: sum.splits)
  from Cons.prems(2) a have n: "n \<noteq> ''cost_class''" and r: "''cost_class'' \<notin> fst ` set opts"
    by auto
  from Cons.IH[OF rest r] build_objective_option_other[OF m1 n] show ?case by simp
qed

lemma build_objective_option_cost_class:
  assumes "build_objective_option m ''cost_class'' (PDict cc) = Inr m'"
    and "getattr m ''costs'' = Some (SetC cs)"
  shows "getattr m' ''objective_cost_class''
           = Some (ParamC [''costs'']
                     (map (\<lambda>(k, v). ([k], v)) (filter (\<lambda>(k, v). k \<in> set cs) cc))
                     None True ''Reals'')"
  using assms by (auto simp: build_objective_option_def Let_def getattr_setattr)

lemma build_objective_option_loop_cost_class:
  assumes "build_objective_option_loop m opts = Inr m'"
    and "distinct (map fst opts)"
    and "map_of opts ''cost_class'' = Some (PDict cc)"
    and "getattr m ''costs'' = Some (SetC cs)"
  shows "getattr m' ''objective_cost_class''
           = Some (ParamC [''costs'']
                     (map (\<lambda>(k, v). ([k], v)) (filter (\<lambda>(k, v). k \<in> set cs) cc))
                     None True ''Reals'')"
  using assms
proof (induction opts arbitrary: m)
  case Nil
  then show ?case by simp
next
  case (Cons a opts)
  obtain n val where a: "a = (n, val)" by (cases a)
  from Cons.prems(1) a obtain m1 where
    m1: "build_objective_option m n val = Inr m1"
    and rest: "build_objective_option_loop m1 opts = Inr m'"
    by (auto split: sum.splits)
  show ?case
  proof (cases "n = ''cost_class''")
    case True
    with Cons.prems(3) a have val: "val = PDict cc" by simp
    from Cons.prems(2) a True have r: "''cost_class'' \<notin> fst ` set opts" by auto
    from build_objective_option_cost_class[OF m1[unfolded True val] Cons.prems(4)]
      build_objective_option_loop_other[OF rest r]
    show ?thesis by simp
  next
    case False
    with Cons.prems(3) a have 3: "map_of opts ''cost_class'' = Some (PDict cc)" by simp
    from Cons.prems(2) a have 2: "distinct (map fst opts)" by simp
    from build_objective_option_keeps_costs[OF m1 Cons.prems(4)]
    have 4: "getattr m1 ''costs'' = Some (SetC cs)" .
    from Cons.IH[OF rest 2 3 4] show ?thesis .
  qed
qed

lemma map_of_filtered_cost_class:
  "map_of (map (\<lambda>(k, v). ([k], v)) (filter (\<lambda>(k, v). k \<in> set cs) cc)) [k]
     = (if k \<in> set cs then map_of cc k else None)"
  by (induction cc) auto

text \<open>
  C5. When \<open>build_params\<close> succeeds on a model whose set \<open>costs\<close> is \<open>cs\<close>, and the
  objective options of the run configuration give \<open>cost_class\<close> the weights \<open>cc\<close>, the
  model has the parameter \<open>objective_cost_class\<close>, indexed by \<open>costs\<close>: every key of \<open>cc\<close>
  that is in \<open>cs\<close> is a key of its initialisation data with the weight \<open>cc\<close> gives it, and
  it has no other key. The witness is the scenario of the claim: weights
  \<open>{monetary: 1, co2: 0}\<close> and cost classes \<open>{monetary, co2}\<close>.
\<close>

theorem build_params_cost_class_kept:
  assumes ok: "build_params gd model_data m = Inr m'"
    and oo: "map_of (attrs_run_config model_data) ''objective_options'' = Some (PDict opts)"
    and di: "distinct (map fst opts)"
    and cc: "map_of opts ''cost_class'' = Some (PDict cc)"
    and costs: "getattr m ''costs'' = Some (SetC cs)"
  shows "\<exists>initialize.
           getattr m' ''objective_cost_class''
             = Some (ParamC [''costs''] initialize None True ''Reals'')
         \<and> (\<forall>k v. k \<in> set cs \<longrightarrow> map_of cc k = Some v \<longrightarrow> map_of initialize [k] = Some v)
         \<and> (\<forall>k v. map_of initialize [k] = Some v \<longrightarrow> k \<in> set cs \<and> map_of cc k = Some v)"
proof -
  let ?m2 = "setattr (setattr m ''__calliope_defaults'' (Attr (PDict (attrs_defaults model_data))))
               ''__calliope_run_config'' (Attr (PDict (attrs_run_config model_data)))"
  have c2: "getattr ?m2 ''costs'' = Some (SetC cs)"
    using costs by (simp add: getattr_setattr)
  from ok oo obtain m3 m4 where
    m3: "build_param_loop gd (attrs_defaults model_data) (attrs_run_config model_data) ?m2
           (data_vars model_data) = Inr m3"
    and m4: "build_objective_option_loop m3 opts = Inr m4"
    and m': "m' = setattr m4 ''bigM''
               (ParamC [] [([], case map_of (attrs_run_config model_data) ''bigM'' of
                                  None \<Rightarrow> PFloat (Fin 10000000000) | Some b \<Rightarrow> b)]
                  None True ''NonNegativeReals'')"
    by (auto simp: build_params_def Let_def split: sum.splits)
  from build_param_loop_keeps_costs[OF m3 c2]
  have c3: "getattr m3 ''costs'' = Some (SetC cs)" .
  from build_objective_option_loop_cost_class[OF m4 di cc c3]
  have "getattr m' ''objective_cost_class''
           = Some (ParamC [''costs'']
                     (map (\<lambda>(k, v). ([k], v)) (filter (\<lambda>(k, v). k \<in> set cs) cc))
                     None True ''Reals'')"
    by (simp add: m' getattr_setattr)
  then show ?thesis
    by (simp add: map_of_filtered_cost_class)
qed


theorem build_params_cost_class_kept_witness:
  "(case build_params (\<lambda>v. ''Reals'') example_dataset
           (build_sets example_dataset ([] :: (nat, nat) model)) of
      Inr m \<Rightarrow>
        (case getattr m ''objective_cost_class'' of
           Some p \<Rightarrow> param_value p [''monetary''] = Inr (PInt 1)
                     \<and> param_value p [''co2''] = Inr (PInt 0)
         | None \<Rightarrow> False)
    | Inl e \<Rightarrow> False)"
proof -
  let ?m0 = "build_sets example_dataset ([] :: (nat, nat) model)"
  let ?opts = "[(''cost_class'', PDict [(''monetary'', PInt 1), (''co2'', PInt 0)]),
                (''sense'', PStr ''minimize'')]"
  obtain m where ok: "build_params (\<lambda>v. ''Reals'') example_dataset ?m0 = Inr m"
    by (simp add: build_params_def example_dataset_def build_sets_def setattr_def getattr_def
        hasattr_def build_objective_option_def Let_def)
  have oo: "map_of (attrs_run_config example_dataset) ''objective_options'' = Some (PDict ?opts)"
    by (simp add: example_dataset_def)
  have di: "distinct (map fst ?opts)" by simp
  have cc: "map_of ?opts ''cost_class'' = Some (PDict [(''monetary'', PInt 1), (''co2'', PInt 0)])"
    by simp
  have costs: "getattr ?m0 ''costs'' = Some (SetC [''monetary'', ''co2''])"
    by (simp add: example_dataset_def build_sets_def setattr_def getattr_def)
  from build_params_cost_class_kept[OF ok oo di cc costs]
  obtain initialize where
    p: "getattr m ''objective_cost_class'' = Some (ParamC [''costs''] initialize None True ''Reals'')"
    and i: "\<forall>k v. k \<in> set [''monetary'', ''co2'']
              \<longrightarrow> map_of [(''monetary'', PInt 1), (''co2'', PInt 0)] k = Some v
              \<longrightarrow> map_of initialize [k] = Some v"
    by blast
  from i have "map_of initialize [''monetary''] = Some (PInt 1)"
    "map_of initialize [''co2''] = Some (PInt 0)" by simp_all
  with ok p show ?thesis by (simp add: param_value_def)
qed

section \<open>The result arrays\<close>






lemma example_all_variables:
  "all_variables (\<lambda>e. PNone) example_solved_model example_inputs =
     Inr [(''energy_cap'',
           \<lparr>dv_dims = [''techs'', ''timesteps''],
            dv_coords = [[''A'', ''B''], [''t0'', ''t1'']],
            dv_series = [([''A'', ''t0''], PFloat (Fin 3)), ([''A'', ''t1''], PFloat (Fin 4)),
                         ([''B'', ''t0''], PFloat NaN), ([''B'', ''t1''], PFloat NaN)],
            dv_attrs = []\<rparr>)]"
  by (simp add: all_variables_def example_solved_model_def example_inputs_def example_dataset_def
      component_objects_def get_var_def get_dim_order_def labels_of_def getattr_def
      sparse_values_def index_dims_def to_dict_def Let_def)




lemma keys_to_dict: "fst ` set (to_dict s) = fst ` set s"
proof -
  have "dom (map_of (to_dict s)) = dom (map_of (rev s))"
    by (simp add: to_dict_lookup dom_def)
  then show ?thesis by (simp add: dom_map_of_conv_image_fst)
qed

lemma keys_fold_update:
  "fst ` set (fold (\<lambda>(k, v). AList.update k v) s acc) = fst ` set acc \<union> fst ` set s"
proof -
  have "dom (map_of (fold (\<lambda>(k, v). AList.update k v) s acc)) = dom (map_of acc) \<union> dom (map_of (rev s))"
    by (simp add: map_of_fold_update Un_commute)
  then show ?thesis by (simp add: dom_map_of_conv_image_fst)
qed

lemma lookup_fold_update_other:
  "n \<notin> fst ` set s \<Longrightarrow> map_of (fold (\<lambda>(k, v). AList.update k v) s acc) n = map_of acc n"
  by (simp add: map_of_fold_update map_add_def map_of_eq_None_iff[THEN iffD2])

lemma snd_get_result_array:
  "snd (get_result_array pv reorg td m model_data) =
     (case all_variables pv m model_data of
        Inl e \<Rightarrow> model_data
      | Inr vars \<Rightarrow>
          if all_params pv m model_data \<noteq> []
          then update model_data (set_is_result (reorg (xr_Dataset (all_params pv m model_data))))
          else model_data)"
  by (simp add: get_result_array_def Let_def split: sum.splits option.splits)

lemma keys_all_params:
  "fst ` set (all_params pv m model_data) =
     {n. \<exists>c. (n, c) \<in> set m \<and> is_IndexedParam c \<and> n \<notin> fst ` set (data_vars model_data)
              \<and> \<not> str_contains ''objective_'' n}"
proof -
  have ip: "\<And>c. is_Param c \<and> is_IndexedParam c \<longleftrightarrow> is_IndexedParam c"
    by (case_tac c) auto
  show ?thesis
    unfolding all_params_def keys_to_dict
    using ip by (force simp: image_iff)
qed

lemma keys_set_is_result: "map fst (data_vars (set_is_result d)) = map fst (data_vars d)"
  by (simp add: set_is_result_def case_prod_unfold comp_def)

lemma example_all_params:
  "map fst (all_params (\<lambda>e. PNone) example_solved_model example_inputs) = [''p'']"
  by (simp add: all_params_def example_solved_model_def example_inputs_def to_dict_def)

lemma example_extraction:
  "map fst (data_vars (snd (get_result_array (\<lambda>e. PNone) (\<lambda>d. d) (\<lambda>l. l)
       example_solved_model example_inputs))) = [''energy_cap_max'', ''p'']"
proof -
  obtain a where ps: "all_params (\<lambda>e. PNone) example_solved_model example_inputs = [(''p'', a)]"
    using example_all_params by (cases "all_params (\<lambda>e. PNone) example_solved_model example_inputs") auto
  show ?thesis
    by (simp add: snd_get_result_array example_all_variables ps)
       (simp add: update_def set_is_result_def xr_Dataset_def example_inputs_def)
qed

text \<open>
  C8, as the code has it. \<open>reorganise_xarray_dimensions\<close> keeps the names of the data
  variables. Extraction leaves every data variable of the caller's dataset as it was. When
  the arrays of the variables cannot be built the dataset is not changed at all; otherwise
  the data variables it has afterwards are those it had and the parameters of the model
  that are indexed, whose name is no data variable of the dataset, and whose name does not
  contain \<open>objective_\<close>. Whether a parameter is mutable is not tested.
\<close>

theorem get_result_array_merges_indexed_params:
  assumes reorg: "\<And>d. map fst (data_vars (reorg d)) = map fst (data_vars d)"
  shows "(\<forall>n. n \<in> fst ` set (data_vars model_data) \<longrightarrow>
            map_of (data_vars (snd (get_result_array pv reorg td m model_data))) n
              = map_of (data_vars model_data) n)
       \<and> (\<forall>e. all_variables pv m model_data = Inl e \<longrightarrow>
              snd (get_result_array pv reorg td m model_data) = model_data)
       \<and> (\<forall>vars. all_variables pv m model_data = Inr vars \<longrightarrow>
              fst ` set (data_vars (snd (get_result_array pv reorg td m model_data)))
                = fst ` set (data_vars model_data)
                  \<union> {n. \<exists>c. (n, c) \<in> set m \<and> is_IndexedParam c
                          \<and> n \<notin> fst ` set (data_vars model_data)
                          \<and> \<not> str_contains ''objective_'' n})"
proof -
  let ?ps = "all_params pv m model_data"
  let ?other = "set_is_result (reorg (xr_Dataset ?ps))"
  have ko: "fst ` set (data_vars ?other) = fst ` set ?ps"
  proof -
    have "map fst (data_vars ?other) = map fst ?ps"
      by (simp add: keys_set_is_result reorg xr_Dataset_def)
    then have "set (map fst (data_vars ?other)) = set (map fst ?ps)" by simp
    then show ?thesis by simp
  qed
  have upd_keys: "fst ` set (data_vars (update model_data ?other))
        = fst ` set (data_vars model_data) \<union> fst ` set ?ps"
    by (simp add: update_def keys_fold_update ko)
  have upd_frame: "\<And>n. n \<in> fst ` set (data_vars model_data) \<Longrightarrow>
        map_of (data_vars (update model_data ?other)) n = map_of (data_vars model_data) n"
  proof -
    fix n assume "n \<in> fst ` set (data_vars model_data)"
    then have "n \<notin> fst ` set ?ps" by (simp add: keys_all_params)
    then have "n \<notin> fst ` set (data_vars ?other)" by (simp add: ko)
    then show "map_of (data_vars (update model_data ?other)) n = map_of (data_vars model_data) n"
      by (simp add: update_def lookup_fold_update_other)
  qed
  have empty: "?ps = [] \<Longrightarrow> fst ` set ?ps = {}" by simp
  have A: "\<forall>n. n \<in> fst ` set (data_vars model_data) \<longrightarrow>
            map_of (data_vars (snd (get_result_array pv reorg td m model_data))) n
              = map_of (data_vars model_data) n"
    unfolding snd_get_result_array using upd_frame by (auto split: sum.splits)
  have B: "\<forall>e. all_variables pv m model_data = Inl e \<longrightarrow>
              snd (get_result_array pv reorg td m model_data) = model_data"
    unfolding snd_get_result_array by simp
  have C: "\<forall>vars. all_variables pv m model_data = Inr vars \<longrightarrow>
              fst ` set (data_vars (snd (get_result_array pv reorg td m model_data)))
                = fst ` set (data_vars model_data) \<union> fst ` set ?ps"
    unfolding snd_get_result_array using upd_keys by auto
  from A B C show ?thesis unfolding keys_all_params by blast
qed


theorem get_result_array_merges_indexed_params_witness:
  "map fst (data_vars (snd (get_result_array (\<lambda>e. PNone) (\<lambda>d. d) (\<lambda>l. l)
       example_solved_model example_inputs))) = [''energy_cap_max'', ''p'']
   \<and> map_of (data_vars (snd (get_result_array (\<lambda>e. PNone) (\<lambda>d. d) (\<lambda>l. l)
       example_solved_model example_inputs))) ''energy_cap_max'' = Some example_var"
proof -
  have r: "\<And>d. map fst (data_vars ((\<lambda>d. d) d)) = map fst (data_vars d)" by simp
  have k: "''energy_cap_max'' \<in> fst ` set (data_vars example_inputs)"
    by (simp add: example_inputs_def)
  from get_result_array_merges_indexed_params[of "\<lambda>d. d", OF r,
      where model_data = example_inputs and pv = "\<lambda>e. PNone" and td = "\<lambda>l. l"
        and m = example_solved_model] k
  have "map_of (data_vars (snd (get_result_array (\<lambda>e. PNone) (\<lambda>d. d) (\<lambda>l. l)
       example_solved_model example_inputs))) ''energy_cap_max''
     = map_of (data_vars example_inputs) ''energy_cap_max''" by blast
  then show ?thesis
    by (simp add: example_extraction) (simp add: example_inputs_def)
qed

text \<open>
  The claim as written has only mutable parameters merged; the parameter \<open>p\<close> of the
  example is indexed and not mutable, is no data variable of the input, and is a data
  variable of the dataset after the extraction.
\<close>

theorem get_result_array_merges_immutable_param:
  "(case getattr example_solved_model ''p'' of
      Some c \<Rightarrow> is_IndexedParam c \<and> \<not> param_mutable c
    | None \<Rightarrow> False)
   \<and> ''p'' \<notin> fst ` set (data_vars example_inputs)
   \<and> ''p'' \<in> fst ` set (data_vars (snd (get_result_array (\<lambda>e. PNone) (\<lambda>d. d) (\<lambda>l. l)
       example_solved_model example_inputs)))"
proof -
  have "set (map fst (data_vars (snd (get_result_array (\<lambda>e. PNone) (\<lambda>d. d) (\<lambda>l. l)
       example_solved_model example_inputs)))) = {''energy_cap_max'', ''p''}"
    by (simp only: example_extraction) auto
  then have "''p'' \<in> fst ` set (data_vars (snd (get_result_array (\<lambda>e. PNone) (\<lambda>d. d) (\<lambda>l. l)
       example_solved_model example_inputs)))" by simp
  then show ?thesis
    by (simp add: example_solved_model_def getattr_def example_inputs_def)
qed

end
